theory Spec2Isabelle
  imports Main
begin

section \<open>The Playwright calls the scripts make\<close>

text \<open>
  The three scripts of \<^verbatim>\<open>verification/\<close> are straight-line sequences of calls into the
  Playwright library, wrapped in \<^verbatim>\<open>with\<close> and \<^verbatim>\<open>try/except/finally\<close>. The library, the
  browser and the web server are outside the repository, so the model takes their behaviour
  as a parameter (the environment) and keeps what the scripts themselves decide: which calls
  are made, with which arguments, in which order, what is printed, which file is written and
  which exception leaves the function.

  A call is recorded with the arguments the source passes. A keyword argument the source
  may leave out is an option: \<open>None\<close> means the call does not pass it.
\<close>

datatype selector_state = Attached | Detached | Visible | Hidden

datatype api_call =
    SyncPlaywrightEnter
  | SyncPlaywrightExit
  | Launch bool
  | NewPage
  | Goto string
  | WaitForSelector string "selector_state option" "nat option"
  | Click string
  | WaitForTimeout nat
  | Screenshot string "bool option"
  | Close

text \<open>
  \<open>Launch headless\<close> is \<^verbatim>\<open>p.chromium.launch(headless=...)\<close>;
  \<open>WaitForSelector selector state timeout\<close> is \<^verbatim>\<open>page.wait_for_selector(selector, state=..., timeout=...)\<close>
  with the timeout in milliseconds; \<open>Screenshot path full_page\<close> is
  \<^verbatim>\<open>page.screenshot(path=..., full_page=...)\<close>; \<open>SyncPlaywrightEnter\<close> and \<open>SyncPlaywrightExit\<close> are
  the entry and exit of the \<^verbatim>\<open>with sync_playwright() as p\<close> block.

  An exception carries the call that raised it and its message (\<^verbatim>\<open>str(e)\<close>). Every error
  Playwright raises is an instance of its \<^verbatim>\<open>Error\<close> class, a subclass of \<^verbatim>\<open>Exception\<close>, so the
  clause \<^verbatim>\<open>except Exception as e\<close> matches every exception of the model.
\<close>

datatype exn = Error (origin: api_call) (message: string)

type_synonym image = "nat list"

text \<open>
  The environment says, for each call, whether it raises (and with which message), and which
  image bytes the browser delivers for a screenshot.
\<close>

record environment =
  fails :: "api_call \<Rightarrow> string option"
  capture :: image

text \<open>
  The world a run acts on: the lines printed so far, the files on disk, and the calls made so
  far, oldest first.
\<close>

record world =
  console :: "string list"
  files :: "string \<rightharpoonup> image"
  trace :: "api_call list"

text \<open>A statement maps the world to the exception it raised, if any, and the new world.\<close>

type_synonym prog = "world \<Rightarrow> exn option \<times> world"

section \<open>Statements\<close>

text \<open>
  What a call that returns does to the files. \<^verbatim>\<open>page.screenshot(path=...)\<close> leaves the
  captured image at \<open>path\<close>, whatever was there before; no other call of the scripts is given
  a path.
\<close>

fun writes :: "environment \<Rightarrow> api_call \<Rightarrow> (string \<rightharpoonup> image) \<Rightarrow> (string \<rightharpoonup> image)" where
  "writes env (Screenshot path full_page) fs = fs(path \<mapsto> capture env)"
| "writes env c fs = fs"

text \<open>
  A call is recorded in the trace; it either raises, leaving the files as they were, or
  returns after its effect on the files.
\<close>

definition call :: "environment \<Rightarrow> api_call \<Rightarrow> prog" where
  "call env c w =
     (case fails env c of
        Some m \<Rightarrow> (Some (Error c m), w\<lparr>trace := trace w @ [c]\<rparr>)
      | None \<Rightarrow> (None, w\<lparr>files := writes env c (files w), trace := trace w @ [c]\<rparr>))"

definition print :: "string \<Rightarrow> prog" where
  "print s w = (None, w\<lparr>console := console w @ [s]\<rparr>)"

text \<open>Two statements in sequence: the second runs only when the first did not raise.\<close>

definition seq :: "prog \<Rightarrow> prog \<Rightarrow> prog" where
  "seq p q w = (case p w of (Some e, w') \<Rightarrow> (Some e, w') | (None, w') \<Rightarrow> q w')"

text \<open>
  \<^verbatim>\<open>try: body  except Exception as e: handler  finally: final\<close>. The handler runs when the
  body raised; the final block runs on every path; an exception of the final block replaces
  whatever was pending.
\<close>

definition try_except_finally :: "prog \<Rightarrow> (exn \<Rightarrow> prog) \<Rightarrow> prog \<Rightarrow> prog" where
  "try_except_finally body handler final w =
     (case body w of (r, w1) \<Rightarrow>
        (case (case r of Some e \<Rightarrow> handler e w1 | None \<Rightarrow> (None, w1)) of (r2, w2) \<Rightarrow>
           (case final w2 of
              (Some e, w3) \<Rightarrow> (Some e, w3)
            | (None, w3) \<Rightarrow> (r2, w3))))"

text \<open>
  \<^verbatim>\<open>with sync_playwright() as p: body\<close>. When entering raises, nothing else runs. Otherwise
  the exit runs after the body on every path and does not swallow the body's exception.
\<close>

definition with_sync_playwright :: "environment \<Rightarrow> prog \<Rightarrow> prog" where
  "with_sync_playwright env body w =
     (case call env SyncPlaywrightEnter w of
        (Some e, w1) \<Rightarrow> (Some e, w1)
      | (None, w1) \<Rightarrow>
          (case body w1 of (r, w2) \<Rightarrow>
             (case call env SyncPlaywrightExit w2 of
                (Some e, w3) \<Rightarrow> (Some e, w3)
              | (None, w3) \<Rightarrow> (r, w3))))"

section \<open>The three scripts\<close>

text \<open>\<^verbatim>\<open>verification/verify_app.py\<close>, function \<^verbatim>\<open>verify_app\<close>.\<close>

definition verify_app :: "environment \<Rightarrow> prog" where
  "verify_app env =
     with_sync_playwright env
       (seq (call env (Launch True))
       (seq (call env NewPage)
            (try_except_finally
               (seq (call env (Goto ''http://localhost:5173''))
               (seq (call env (WaitForSelector ''#canvas-container canvas'' None (Some 10000)))
               (seq (call env (Screenshot ''verification/app_screenshot.png'' None))
                    (print ''Screenshot taken successfully''))))
               (\<lambda>e. print (''Error: '' @ message e))
               (call env Close))))"

text \<open>
  \<^verbatim>\<open>verification/verify_autopilot.py\<close>, function \<^verbatim>\<open>verify_app\<close>; it is named after its file
  here, since the function of \<^verbatim>\<open>verify_app.py\<close> has the same name.
\<close>

definition verify_autopilot :: "environment \<Rightarrow> prog" where
  "verify_autopilot env =
     with_sync_playwright env
       (seq (call env (Launch True))
       (seq (call env NewPage)
            (try_except_finally
               (seq (print ''Navigating to app...'')
               (seq (call env (Goto ''http://localhost:8000''))
               (seq (call env (WaitForSelector ''#canvas-container canvas'' None (Some 5000)))
               (seq (print ''Clicking start overlay...'')
               (seq (call env (Click ''#start-overlay''))
               (seq (print ''Waiting for autopilot...'')
               (seq (call env (WaitForTimeout 3000))
               (seq (print ''Taking screenshot...'')
               (seq (call env (Screenshot ''verification/autopilot_active.png'' None))
                    (print ''Screenshot saved.''))))))))))
               (\<lambda>e. print (''Error: '' @ message e))
               (call env Close))))"

text \<open>\<^verbatim>\<open>verification/verify_refactor.py\<close>, function \<^verbatim>\<open>verify_app_loads\<close>.\<close>

definition verify_app_loads :: "environment \<Rightarrow> prog" where
  "verify_app_loads env =
     with_sync_playwright env
       (seq (call env (Launch True))
       (seq (call env NewPage)
            (try_except_finally
               (seq (call env (Goto ''http://localhost:8080''))
               (seq (call env (WaitForSelector ''canvas'' (Some Visible) None))
               (seq (call env (WaitForTimeout 2000))
               (seq (call env (Screenshot ''verification/app_running.png'' None))
                    (print ''Screenshot taken: verification/app_running.png'')))))
               (\<lambda>e. print (''Error: '' @ message e))
               (call env Close))))"

text \<open>
  \<^verbatim>\<open>if __name__ == "__main__": ...\<close>: one run of a script is one process. It starts with
  nothing printed and no call made, on whatever files exist.
\<close>

definition run :: "(environment \<Rightarrow> prog) \<Rightarrow> environment \<Rightarrow> (string \<rightharpoonup> image) \<Rightarrow> exn option \<times> world" where
  "run script env fs = script env \<lparr>console = [], files = fs, trace = []\<rparr>"

section \<open>The scripts as statement lists\<close>

text \<open>
  The three functions have one shape: the same \<^verbatim>\<open>with\<close> block, the same two calls before
  the \<^verbatim>\<open>try\<close>, the same handler and the same \<^verbatim>\<open>finally\<close>; they differ in the statements
  of the \<^verbatim>\<open>try\<close> body. The body of each is written down as a list of statements, and each
  function is shown below to be equal to the common shape run on its list, so that facts about
  all three are proved once, by induction on the list.
\<close>

datatype stmt = Print string | Call api_call

fun exec :: "environment \<Rightarrow> stmt \<Rightarrow> prog" where
  "exec env (Print s) = print s"
| "exec env (Call c) = call env c"

fun block :: "environment \<Rightarrow> stmt list \<Rightarrow> prog" where
  "block env [] = (\<lambda>w. (None, w))"
| "block env (s # ss) = seq (exec env s) (block env ss)"

definition script :: "environment \<Rightarrow> stmt list \<Rightarrow> prog" where
  "script env body =
     with_sync_playwright env
       (seq (call env (Launch True))
       (seq (call env NewPage)
            (try_except_finally
               (block env body)
               (\<lambda>e. print (''Error: '' @ message e))
               (call env Close))))"

definition verify_app_body :: "stmt list" where
  "verify_app_body =
     [Call (Goto ''http://localhost:5173''),
      Call (WaitForSelector ''#canvas-container canvas'' None (Some 10000)),
      Call (Screenshot ''verification/app_screenshot.png'' None),
      Print ''Screenshot taken successfully'']"

definition verify_autopilot_body :: "stmt list" where
  "verify_autopilot_body =
     [Print ''Navigating to app...'',
      Call (Goto ''http://localhost:8000''),
      Call (WaitForSelector ''#canvas-container canvas'' None (Some 5000)),
      Print ''Clicking start overlay...'',
      Call (Click ''#start-overlay''),
      Print ''Waiting for autopilot...'',
      Call (WaitForTimeout 3000),
      Print ''Taking screenshot...'',
      Call (Screenshot ''verification/autopilot_active.png'' None),
      Print ''Screenshot saved.'']"

definition verify_app_loads_body :: "stmt list" where
  "verify_app_loads_body =
     [Call (Goto ''http://localhost:8080''),
      Call (WaitForSelector ''canvas'' (Some Visible) None),
      Call (WaitForTimeout 2000),
      Call (Screenshot ''verification/app_running.png'' None),
      Print ''Screenshot taken: verification/app_running.png'']"

definition scripts :: "(environment \<Rightarrow> prog) set" where
  "scripts = {verify_app, verify_autopilot, verify_app_loads}"

section \<open>Vocabulary of the properties\<close>

text \<open>The Playwright calls of a statement list, in order.\<close>

fun calls_of :: "stmt list \<Rightarrow> api_call list" where
  "calls_of [] = []"
| "calls_of (Print s # ss) = calls_of ss"
| "calls_of (Call c # ss) = c # calls_of ss"

text \<open>
  Of a sequence of calls made one after the other, the calls that are made: all of them up to
  and including the first that raises.
\<close>

fun run_until_failure :: "environment \<Rightarrow> api_call list \<Rightarrow> api_call list" where
  "run_until_failure env [] = []"
| "run_until_failure env (c # cs) =
     (case fails env c of None \<Rightarrow> c # run_until_failure env cs | Some m \<Rightarrow> [c])"

text \<open>The exception of the first call of the sequence that raises.\<close>

fun first_failure :: "environment \<Rightarrow> api_call list \<Rightarrow> exn option" where
  "first_failure env [] = None"
| "first_failure env (c # cs) =
     (case fails env c of None \<Rightarrow> first_failure env cs | Some m \<Rightarrow> Some (Error c m))"

text \<open>
  The lines a statement list prints, and the files a sequence of calls leaves, given which
  calls raise.
\<close>

fun printed :: "environment \<Rightarrow> stmt list \<Rightarrow> string list" where
  "printed env [] = []"
| "printed env (Print s # ss) = s # printed env ss"
| "printed env (Call c # ss) = (case fails env c of None \<Rightarrow> printed env ss | Some m \<Rightarrow> [])"

fun written :: "environment \<Rightarrow> api_call list \<Rightarrow> (string \<rightharpoonup> image) \<Rightarrow> (string \<rightharpoonup> image)" where
  "written env [] fs = fs"
| "written env (c # cs) fs =
     (case fails env c of None \<Rightarrow> written env cs (writes env c fs) | Some m \<Rightarrow> fs)"

text \<open>
  The \<^verbatim>\<open>try\<close> block is entered when the \<^verbatim>\<open>with\<close> block was entered, the browser
  was launched and the page was opened.
\<close>

definition prelude :: "api_call list" where
  "prelude = [SyncPlaywrightEnter, Launch True, NewPage]"

definition try_entered :: "environment \<Rightarrow> bool" where
  "try_entered env = (first_failure env prelude = None)"

text \<open>
  The linear order of a run, for the calls \<open>guarded\<close> of a \<^verbatim>\<open>try\<close> body: the calls are made
  in order up to the first failure; the browser is closed when the \<^verbatim>\<open>try\<close> block was
  entered; the \<^verbatim>\<open>with\<close> block exits when it was entered.
\<close>

definition expected_trace :: "environment \<Rightarrow> api_call list \<Rightarrow> api_call list" where
  "expected_trace env guarded =
     (case fails env SyncPlaywrightEnter of
        Some m \<Rightarrow> [SyncPlaywrightEnter]
      | None \<Rightarrow>
          (if try_entered env then prelude @ run_until_failure env guarded @ [Close]
           else run_until_failure env prelude)
          @ [SyncPlaywrightExit])"

text \<open>
  The exception that leaves the run function once the \<^verbatim>\<open>try\<close> block has handled its own:
  that of the exit of the \<^verbatim>\<open>with\<close> block when it raises, else that of \<^verbatim>\<open>browser.close()\<close>
  when it raises, else none.
\<close>

definition cleanup_result :: "environment \<Rightarrow> exn option" where
  "cleanup_result env =
     (case fails env SyncPlaywrightExit of
        Some x \<Rightarrow> Some (Error SyncPlaywrightExit x)
      | None \<Rightarrow>
          (case fails env Close of
             Some x \<Rightarrow> Some (Error Close x)
           | None \<Rightarrow> None))"

text \<open>The timeout arguments of the readiness waits, and the durations of the settle waits, of a trace.\<close>

fun readiness_timeouts :: "api_call list \<Rightarrow> nat option list" where
  "readiness_timeouts [] = []"
| "readiness_timeouts (WaitForSelector sel st t # cs) = t # readiness_timeouts cs"
| "readiness_timeouts (c # cs) = readiness_timeouts cs"

fun settle_waits :: "api_call list \<Rightarrow> nat list" where
  "settle_waits [] = []"
| "settle_waits (WaitForTimeout ms # cs) = ms # settle_waits cs"
| "settle_waits (c # cs) = settle_waits cs"

text \<open>An explicit timeout of 5 to 10 seconds, in milliseconds.\<close>

fun explicit_5_to_10_seconds :: "nat option \<Rightarrow> bool" where
  "explicit_5_to_10_seconds None = False"
| "explicit_5_to_10_seconds (Some ms) = (5000 \<le> ms \<and> ms \<le> 10000)"


text \<open>Python's \<^verbatim>\<open>sub in s\<close> on strings.\<close>

fun starts_with :: "string \<Rightarrow> string \<Rightarrow> bool" where
  "starts_with s [] = True"
| "starts_with [] (c # sub) = False"
| "starts_with (d # s) (c # sub) = (d = c \<and> starts_with s sub)"

fun contains_str :: "string \<Rightarrow> string \<Rightarrow> bool" where
  "contains_str [] sub = (sub = [])"
| "contains_str (d # s) sub = (starts_with (d # s) sub \<or> contains_str s sub)"

section \<open>Concrete environments\<close>

text \<open>Every call succeeds; the capture starts with the PNG signature.\<close>

definition env_ok :: environment where
  "env_ok = \<lparr>fails = (\<lambda>c. None), capture = [137, 80, 78, 71, 13, 10, 26, 10]\<rparr>"

text \<open>The browser launches, but opening the page raises.\<close>

definition env_no_page :: environment where
  "env_no_page =
     \<lparr>fails = (\<lambda>c. if c = NewPage then Some ''Target page, context or browser has been closed''
                    else None),
      capture = []\<rparr>"

text \<open>No server listens: the navigation raises.\<close>

definition env_no_server :: environment where
  "env_no_server =
     \<lparr>fails = (\<lambda>c. case c of Goto url \<Rightarrow> Some ''net::ERR_CONNECTION_REFUSED'' | _ \<Rightarrow> None),
      capture = []\<rparr>"

text \<open>The page loads, but the readiness selector never appears: the wait raises.\<close>

definition env_timeout :: environment where
  "env_timeout =
     \<lparr>fails = (\<lambda>c. case c of WaitForSelector sel st t \<Rightarrow> Some ''Timeout exceeded.'' | _ \<Rightarrow> None),
      capture = []\<rparr>"

text \<open>
  The readiness selector never appears, so the wait raises, and then closing the browser
  raises as well.
\<close>

definition env_close_fails :: environment where
  "env_close_fails =
     \<lparr>fails = (\<lambda>c. case c of
                      WaitForSelector sel st t \<Rightarrow> Some ''Timeout exceeded.''
                    | Close \<Rightarrow> Some ''Connection closed''
                    | _ \<Rightarrow> None),
      capture = []\<rparr>"

text \<open>Files that exist before a run: a stale screenshot and an unrelated file.\<close>

definition disk0 :: "string \<rightharpoonup> image" where
  "disk0 = [''verification/app_screenshot.png'' \<mapsto> [1, 2, 3], ''notes.txt'' \<mapsto> [4]]"

section \<open>Each script is the common shape run on its statement list\<close>

lemma seq_skip: "seq p (\<lambda>w. (None, w)) = p"
  by (rule ext) (simp add: seq_def split: prod.splits option.splits)

lemma verify_app_script: "verify_app env = script env verify_app_body"
  by (simp add: verify_app_def script_def verify_app_body_def seq_skip)

lemma verify_autopilot_script: "verify_autopilot env = script env verify_autopilot_body"
  by (simp add: verify_autopilot_def script_def verify_autopilot_body_def seq_skip)

lemma verify_app_loads_script: "verify_app_loads env = script env verify_app_loads_body"
  by (simp add: verify_app_loads_def script_def verify_app_loads_body_def seq_skip)

section \<open>What a statement list and a script do\<close>

lemma block_closed_form:
  "block env ss w =
     (first_failure env (calls_of ss),
      \<lparr>console = console w @ printed env ss,
       files = written env (calls_of ss) (files w),
       trace = trace w @ run_until_failure env (calls_of ss)\<rparr>)"
proof (induction ss arbitrary: w)
  case Nil
  show ?case by simp
next
  case (Cons s ss)
  show ?case
  proof (cases s)
    case (Print l)
    then show ?thesis by (simp add: Cons.IH seq_def print_def)
  next
    case (Call c)
    then show ?thesis
      by (cases "fails env c") (simp_all add: Cons.IH seq_def call_def)
  qed
qed

lemma run_entered:
  assumes "S env = script env body" and "try_entered env"
  shows "run S env fs =
     (first_failure env [SyncPlaywrightExit, Close],
      \<lparr>console = printed env body @
         (case first_failure env (calls_of body) of
            None \<Rightarrow> [] | Some e \<Rightarrow> [''Error: '' @ message e]),
       files = written env (calls_of body) fs,
       trace = prelude @ run_until_failure env (calls_of body) @ [Close, SyncPlaywrightExit]\<rparr>)"
  using assms
  by (simp add: run_def script_def with_sync_playwright_def try_except_finally_def seq_def
        call_def print_def block_closed_form try_entered_def prelude_def
      split: option.splits)

lemma run_not_entered:
  assumes "S env = script env body" and "\<not> try_entered env"
  shows "run S env fs =
     (case fails env SyncPlaywrightEnter of
        Some m \<Rightarrow> Some (Error SyncPlaywrightEnter m)
      | None \<Rightarrow>
          (case fails env SyncPlaywrightExit of
             Some m \<Rightarrow> Some (Error SyncPlaywrightExit m)
           | None \<Rightarrow> first_failure env prelude),
      \<lparr>console = [], files = fs,
       trace = (case fails env SyncPlaywrightEnter of
                  Some m \<Rightarrow> [SyncPlaywrightEnter]
                | None \<Rightarrow> run_until_failure env prelude @ [SyncPlaywrightExit])\<rparr>)"
  using assms
  by (simp add: run_def script_def with_sync_playwright_def try_except_finally_def seq_def
        call_def print_def block_closed_form try_entered_def prelude_def
      split: option.splits)

lemma scripts_shape:
  assumes "S \<in> scripts"
  shows "\<exists>body. (\<forall>env. S env = script env body)
           \<and> (body = verify_app_body \<or> body = verify_autopilot_body \<or> body = verify_app_loads_body)"
  using assms verify_app_script verify_autopilot_script verify_app_loads_script
  unfolding scripts_def by blast

section \<open>Facts about call sequences\<close>

lemma set_run_until_failure: "set (run_until_failure env cs) \<subseteq> set cs"
  by (induction cs) (auto split: option.splits)

lemma failed_call_is_first_failure:
  "c \<in> set (run_until_failure env cs) \<Longrightarrow> fails env c = Some m \<Longrightarrow>
   first_failure env cs = Some (Error c m)"
  by (induction cs) (auto split: option.splits)

lemma first_failure_None_iff:
  "first_failure env cs = None \<longleftrightarrow> (\<forall>c \<in> set cs. fails env c = None)"
  by (induction cs) (auto split: option.splits)

lemma first_failure_origin:
  "first_failure env cs = Some e \<Longrightarrow> origin e \<in> set cs"
  by (induction cs) (auto split: option.splits)

lemma prelude_succeeds:
  "try_entered env \<Longrightarrow> c \<in> set prelude \<Longrightarrow> fails env c = None"
  by (simp add: try_entered_def first_failure_None_iff)

lemma escaping_exception:
  assumes "S \<in> scripts" and "try_entered env" and "fst (run S env fs) = Some e"
  shows "origin e = Close \<or> origin e = SyncPlaywrightExit"
proof -
  obtain body where "S env = script env body"
    using scripts_shape [OF assms(1)] by blast
  then have "first_failure env [SyncPlaywrightExit, Close] = Some e"
    using assms(2,3) by (simp add: run_entered)
  then have "origin e \<in> set [SyncPlaywrightExit, Close]"
    by (rule first_failure_origin)
  then show ?thesis by auto
qed

lemma clean_return:
  assumes "S \<in> scripts" and "try_entered env"
    and "fails env Close = None" and "fails env SyncPlaywrightExit = None"
  shows "fst (run S env fs) = None"
proof -
  obtain body where "S env = script env body"
    using scripts_shape [OF assms(1)] by blast
  then show ?thesis
    using assms(2-4) by (simp add: run_entered)
qed

lemma failure_is_printed:
  assumes "S \<in> scripts" and "try_entered env"
    and "c \<in> set (trace (snd (run S env fs)))"
    and "c \<noteq> Close" and "c \<noteq> SyncPlaywrightExit" and "fails env c = Some m"
  shows "last (console (snd (run S env fs))) = ''Error: '' @ m"
proof -
  obtain body where S: "S env = script env body"
    using scripts_shape [OF assms(1)] by blast
  have "c \<notin> set prelude"
    using prelude_succeeds [OF assms(2)] assms(6) by auto
  then have "c \<in> set (run_until_failure env (calls_of body))"
    using assms(2-5) by (simp add: run_entered [of S env body, OF S])
  then have "first_failure env (calls_of body) = Some (Error c m)"
    using assms(6) by (rule failed_call_is_first_failure)
  then show ?thesis
    using assms(2) by (simp add: run_entered [of S env body, OF S])
qed

lemma page_failure_escapes:
  assumes "S \<in> scripts"
    and "fails env SyncPlaywrightEnter = None" and "fails env (Launch True) = None"
    and "fails env NewPage = Some m" and "fails env SyncPlaywrightExit = None"
  shows "fst (run S env fs) = Some (Error NewPage m)"
proof -
  obtain body where S: "S env = script env body"
    using scripts_shape [OF assms(1)] by blast
  have "\<not> try_entered env"
    using assms(4) by (simp add: try_entered_def prelude_def split: option.splits)
  then show ?thesis
    using assms(2-5) by (simp add: run_not_entered [of S env body, OF S] prelude_def)
qed

section \<open>Closing the browser\<close>

lemma bodies_never_close:
  assumes "body = verify_app_body \<or> body = verify_autopilot_body \<or> body = verify_app_loads_body"
  shows "Close \<notin> set (calls_of body)"
  using assms by (auto simp: verify_app_body_def verify_autopilot_body_def verify_app_loads_body_def)

lemma count_list_absent: "x \<notin> set xs \<Longrightarrow> count_list xs x = 0"
  by (simp add: count_list_0_iff)

lemma close_count:
  assumes "S \<in> scripts"
  shows "count_list (trace (snd (run S env fs))) Close = (if try_entered env then 1 else 0)"
proof -
  obtain body where S: "S env = script env body"
    and B: "body = verify_app_body \<or> body = verify_autopilot_body \<or> body = verify_app_loads_body"
    using scripts_shape [OF assms] by blast
  show ?thesis
  proof (cases "try_entered env")
    case True
    have "Close \<notin> set (run_until_failure env (calls_of body))"
      using bodies_never_close [OF B] set_run_until_failure [of env "calls_of body"] by blast
    then have "count_list (run_until_failure env (calls_of body)) Close = 0"
      by (rule count_list_absent)
    then show ?thesis
      using True by (simp add: run_entered [of S env body, OF S] prelude_def)
  next
    case False
    have "Close \<notin> set (run_until_failure env prelude)"
      using set_run_until_failure [of env prelude] by (auto simp: prelude_def)
    then have "count_list (run_until_failure env prelude) Close = 0"
      by (rule count_list_absent)
    then show ?thesis
      using False by (simp add: run_not_entered [of S env body, OF S] split: option.splits)
  qed
qed

lemma close_is_last_before_exit:
  assumes "S \<in> scripts" and "try_entered env"
  shows "last (butlast (trace (snd (run S env fs)))) = Close
       \<and> last (trace (snd (run S env fs))) = SyncPlaywrightExit"
proof -
  obtain body where S: "S env = script env body"
    using scripts_shape [OF assms(1)] by blast
  have "butlast (xs @ ys @ [Close, SyncPlaywrightExit]) = xs @ ys @ [Close]" for xs ys :: "api_call list"
    by (simp add: butlast_append)
  then show ?thesis
    using assms(2) by (simp add: run_entered [of S env body, OF S])
qed

section \<open>The files and the screenshot call\<close>

lemma written_lookup:
  "written env cs fs p =
     (if \<exists>fp. Screenshot p fp \<in> set (run_until_failure env cs) \<and> fails env (Screenshot p fp) = None
      then Some (capture env) else fs p)"
proof (induction cs arbitrary: fs)
  case Nil
  show ?case by simp
next
  case (Cons c cs)
  show ?case
  proof (cases "fails env c")
    case (Some m)
    then show ?thesis by auto
  next
    case None
    then show ?thesis
      by (cases c) (auto simp: Cons.IH)
  qed
qed

lemma trace_closed_form:
  assumes "S env = script env body"
  shows "trace (snd (run S env fs)) = expected_trace env (calls_of body)"
proof (cases "try_entered env")
  case True
  then have "fails env SyncPlaywrightEnter = None"
    by (simp add: prelude_succeeds prelude_def)
  then show ?thesis
    using True by (simp add: run_entered [of S env body, OF assms] expected_trace_def)
next
  case False
  then show ?thesis
    by (simp add: run_not_entered [of S env body, OF assms] expected_trace_def
        prelude_def split: option.splits)
qed

lemma no_screenshot_before_try:
  assumes "\<not> try_entered env"
  shows "Screenshot p fp \<notin> set (expected_trace env cs)"
proof -
  have "Screenshot p fp \<notin> set (run_until_failure env prelude)"
    using set_run_until_failure [of env prelude] by (auto simp: prelude_def)
  then show ?thesis
    using assms by (simp add: expected_trace_def split: option.splits)
qed

lemma screenshot_in_trace:
  assumes "try_entered env"
  shows "Screenshot p fp \<in> set (expected_trace env cs)
         \<longleftrightarrow> Screenshot p fp \<in> set (run_until_failure env cs)"
proof -
  have "fails env SyncPlaywrightEnter = None"
    using assms by (simp add: prelude_succeeds prelude_def)
  then show ?thesis
    using assms by (simp add: expected_trace_def prelude_def)
qed

lemma files_after_run:
  assumes "S \<in> scripts"
  shows "files (snd (run S env fs)) p =
     (if \<exists>fp. Screenshot p fp \<in> set (trace (snd (run S env fs)))
               \<and> fails env (Screenshot p fp) = None
      then Some (capture env) else fs p)"
proof -
  obtain body where S: "S env = script env body"
    using scripts_shape [OF assms] by blast
  show ?thesis
  proof (cases "try_entered env")
    case True
    have "files (snd (run S env fs)) p = written env (calls_of body) fs p"
      using True by (simp add: run_entered [of S env body, OF S])
    then show ?thesis
      using True
      by (simp only: trace_closed_form [of S env body, OF S] screenshot_in_trace written_lookup)
  next
    case False
    have "files (snd (run S env fs)) p = fs p"
      using False by (simp add: run_not_entered [of S env body, OF S])
    then show ?thesis
      using False
      by (simp add: trace_closed_form [of S env body, OF S] no_screenshot_before_try)
  qed
qed

lemma screenshot_reached:
  "Screenshot p fp \<in> set (trace (snd (run verify_app env fs))) \<longleftrightarrow>
     p = ''verification/app_screenshot.png'' \<and> fp = None
     \<and> (\<forall>c \<in> set (prelude @
            [Goto ''http://localhost:5173'',
             WaitForSelector ''#canvas-container canvas'' None (Some 10000)]).
          fails env c = None)"
  "Screenshot p fp \<in> set (trace (snd (run verify_autopilot env fs))) \<longleftrightarrow>
     p = ''verification/autopilot_active.png'' \<and> fp = None
     \<and> (\<forall>c \<in> set (prelude @
            [Goto ''http://localhost:8000'',
             WaitForSelector ''#canvas-container canvas'' None (Some 5000),
             Click ''#start-overlay'',
             WaitForTimeout 3000]).
          fails env c = None)"
  "Screenshot p fp \<in> set (trace (snd (run verify_app_loads env fs))) \<longleftrightarrow>
     p = ''verification/app_running.png'' \<and> fp = None
     \<and> (\<forall>c \<in> set (prelude @
            [Goto ''http://localhost:8080'',
             WaitForSelector ''canvas'' (Some Visible) None,
             WaitForTimeout 2000]).
          fails env c = None)"
proof -
  have E: "try_entered env \<longleftrightarrow> (\<forall>c \<in> set prelude. fails env c = None)"
    by (simp add: try_entered_def first_failure_None_iff)
  show "Screenshot p fp \<in> set (trace (snd (run verify_app env fs))) \<longleftrightarrow>
     p = ''verification/app_screenshot.png'' \<and> fp = None
     \<and> (\<forall>c \<in> set (prelude @
            [Goto ''http://localhost:5173'',
             WaitForSelector ''#canvas-container canvas'' None (Some 10000)]).
          fails env c = None)"
  proof (cases "try_entered env")
    case True
    then show ?thesis
      using E
      by (simp add: trace_closed_form [OF verify_app_script] screenshot_in_trace
            verify_app_body_def ball_Un split: option.splits)
  next
    case False
    then show ?thesis
      using E
      by (simp add: trace_closed_form [OF verify_app_script] no_screenshot_before_try ball_Un)
  qed
  show "Screenshot p fp \<in> set (trace (snd (run verify_autopilot env fs))) \<longleftrightarrow>
     p = ''verification/autopilot_active.png'' \<and> fp = None
     \<and> (\<forall>c \<in> set (prelude @
            [Goto ''http://localhost:8000'',
             WaitForSelector ''#canvas-container canvas'' None (Some 5000),
             Click ''#start-overlay'',
             WaitForTimeout 3000]).
          fails env c = None)"
  proof (cases "try_entered env")
    case True
    then show ?thesis
      using E
      by (simp add: trace_closed_form [OF verify_autopilot_script] screenshot_in_trace
            verify_autopilot_body_def ball_Un split: option.splits)
  next
    case False
    then show ?thesis
      using E
      by (simp add: trace_closed_form [OF verify_autopilot_script] no_screenshot_before_try
            ball_Un)
  qed
  show "Screenshot p fp \<in> set (trace (snd (run verify_app_loads env fs))) \<longleftrightarrow>
     p = ''verification/app_running.png'' \<and> fp = None
     \<and> (\<forall>c \<in> set (prelude @
            [Goto ''http://localhost:8080'',
             WaitForSelector ''canvas'' (Some Visible) None,
             WaitForTimeout 2000]).
          fails env c = None)"
  proof (cases "try_entered env")
    case True
    then show ?thesis
      using E
      by (simp add: trace_closed_form [OF verify_app_loads_script] screenshot_in_trace
            verify_app_loads_body_def ball_Un split: option.splits)
  next
    case False
    then show ?thesis
      using E
      by (simp add: trace_closed_form [OF verify_app_loads_script] no_screenshot_before_try
            ball_Un)
  qed
qed

lemma scripts_mem: "verify_app \<in> scripts" "verify_autopilot \<in> scripts" "verify_app_loads \<in> scripts"
  by (simp_all add: scripts_def)

lemma files_closed_form_app:
  "files (snd (run verify_app env fs)) =
     (if \<forall>c \<in> set (prelude @
            [Goto ''http://localhost:5173'',
             WaitForSelector ''#canvas-container canvas'' None (Some 10000),
             Screenshot ''verification/app_screenshot.png'' None]).
          fails env c = None
      then fs(''verification/app_screenshot.png'' \<mapsto> capture env) else fs)"
proof (rule ext)
  fix p
  show "files (snd (run verify_app env fs)) p =
     (if \<forall>c \<in> set (prelude @
            [Goto ''http://localhost:5173'',
             WaitForSelector ''#canvas-container canvas'' None (Some 10000),
             Screenshot ''verification/app_screenshot.png'' None]).
          fails env c = None
      then fs(''verification/app_screenshot.png'' \<mapsto> capture env) else fs) p"
    unfolding files_after_run [OF scripts_mem(1)] screenshot_reached
    by (auto simp: ball_Un)
qed

lemma files_closed_form_autopilot:
  "files (snd (run verify_autopilot env fs)) =
     (if \<forall>c \<in> set (prelude @
            [Goto ''http://localhost:8000'',
             WaitForSelector ''#canvas-container canvas'' None (Some 5000),
             Click ''#start-overlay'',
             WaitForTimeout 3000,
             Screenshot ''verification/autopilot_active.png'' None]).
          fails env c = None
      then fs(''verification/autopilot_active.png'' \<mapsto> capture env) else fs)"
proof (rule ext)
  fix p
  show "files (snd (run verify_autopilot env fs)) p =
     (if \<forall>c \<in> set (prelude @
            [Goto ''http://localhost:8000'',
             WaitForSelector ''#canvas-container canvas'' None (Some 5000),
             Click ''#start-overlay'',
             WaitForTimeout 3000,
             Screenshot ''verification/autopilot_active.png'' None]).
          fails env c = None
      then fs(''verification/autopilot_active.png'' \<mapsto> capture env) else fs) p"
    unfolding files_after_run [OF scripts_mem(2)] screenshot_reached
    by (auto simp: ball_Un)
qed

lemma files_closed_form_app_loads:
  "files (snd (run verify_app_loads env fs)) =
     (if \<forall>c \<in> set (prelude @
            [Goto ''http://localhost:8080'',
             WaitForSelector ''canvas'' (Some Visible) None,
             WaitForTimeout 2000,
             Screenshot ''verification/app_running.png'' None]).
          fails env c = None
      then fs(''verification/app_running.png'' \<mapsto> capture env) else fs)"
proof (rule ext)
  fix p
  show "files (snd (run verify_app_loads env fs)) p =
     (if \<forall>c \<in> set (prelude @
            [Goto ''http://localhost:8080'',
             WaitForSelector ''canvas'' (Some Visible) None,
             WaitForTimeout 2000,
             Screenshot ''verification/app_running.png'' None]).
          fails env c = None
      then fs(''verification/app_running.png'' \<mapsto> capture env) else fs) p"
    unfolding files_after_run [OF scripts_mem(3)] screenshot_reached
    by (auto simp: ball_Un)
qed

section \<open>The readiness wait\<close>

lemma wait_reached:
  "WaitForSelector sel st t \<in> set (trace (snd (run verify_app env fs))) \<Longrightarrow>
     WaitForSelector sel st t = WaitForSelector ''#canvas-container canvas'' None (Some 10000)"
  "WaitForSelector sel st t \<in> set (trace (snd (run verify_autopilot env fs))) \<Longrightarrow>
     WaitForSelector sel st t = WaitForSelector ''#canvas-container canvas'' None (Some 5000)"
  "WaitForSelector sel st t \<in> set (trace (snd (run verify_app_loads env fs))) \<Longrightarrow>
     WaitForSelector sel st t = WaitForSelector ''canvas'' (Some Visible) None"
proof -
  have sub: "set (expected_trace env cs)
               \<subseteq> set prelude \<union> set cs \<union> {Close, SyncPlaywrightExit}" for cs
    using set_run_until_failure [of env prelude] set_run_until_failure [of env cs]
    by (auto simp: expected_trace_def prelude_def split: option.splits)
  show "WaitForSelector sel st t \<in> set (trace (snd (run verify_app env fs))) \<Longrightarrow>
     WaitForSelector sel st t = WaitForSelector ''#canvas-container canvas'' None (Some 10000)"
    using sub [of "calls_of verify_app_body"]
    by (auto simp: trace_closed_form [OF verify_app_script] verify_app_body_def prelude_def)
  show "WaitForSelector sel st t \<in> set (trace (snd (run verify_autopilot env fs))) \<Longrightarrow>
     WaitForSelector sel st t = WaitForSelector ''#canvas-container canvas'' None (Some 5000)"
    using sub [of "calls_of verify_autopilot_body"]
    by (auto simp: trace_closed_form [OF verify_autopilot_script] verify_autopilot_body_def
          prelude_def)
  show "WaitForSelector sel st t \<in> set (trace (snd (run verify_app_loads env fs))) \<Longrightarrow>
     WaitForSelector sel st t = WaitForSelector ''canvas'' (Some Visible) None"
    using sub [of "calls_of verify_app_loads_body"]
    by (auto simp: trace_closed_form [OF verify_app_loads_script] verify_app_loads_body_def
          prelude_def)
qed

lemma no_screenshot_after_failed_wait:
  assumes "S \<in> scripts"
    and "WaitForSelector sel st t \<in> set (trace (snd (run S env fs)))"
    and "fails env (WaitForSelector sel st t) = Some m"
  shows "Screenshot p fp \<notin> set (trace (snd (run S env fs)))"
proof -
  consider "S = verify_app" | "S = verify_autopilot" | "S = verify_app_loads"
    using assms(1) by (auto simp: scripts_def)
  then show ?thesis
  proof cases
    case 1
    then show ?thesis
      using assms(2,3) wait_reached(1) [of sel st t env fs]
      by (auto simp: screenshot_reached)
  next
    case 2
    then show ?thesis
      using assms(2,3) wait_reached(2) [of sel st t env fs]
      by (auto simp: screenshot_reached)
  next
    case 3
    then show ?thesis
      using assms(2,3) wait_reached(3) [of sel st t env fs]
      by (auto simp: screenshot_reached)
  qed
qed

lemma call_in_try:
  assumes "S \<in> scripts" and "c \<in> set (trace (snd (run S env fs)))"
    and "c \<notin> set prelude" and "c \<noteq> SyncPlaywrightExit"
  shows "try_entered env"
proof (rule ccontr)
  assume N: "\<not> try_entered env"
  obtain body where S: "S env = script env body"
    using scripts_shape [OF assms(1)] by blast
  have "c \<in> set (run_until_failure env prelude) \<or> c = SyncPlaywrightEnter"
    using assms(2,4) N
    by (auto simp: run_not_entered [of S env body, OF S] split: option.splits)
  then show False
    using assms(3) set_run_until_failure [of env prelude] by (auto simp: prelude_def)
qed

lemma run_when_step_fails:
  assumes "S env = script env body" and "try_entered env"
    and "calls_of body = cs @ c # rest"
    and "\<forall>d \<in> set cs. fails env d = None" and "fails env c = Some m"
  shows "run S env fs =
     (cleanup_result env,
      \<lparr>console = printed env body @ [''Error: '' @ m],
       files = written env (calls_of body) fs,
       trace = prelude @ cs @ [c, Close, SyncPlaywrightExit]\<rparr>)"
proof -
  have F: "first_failure env (xs @ c # rest) = Some (Error c m)"
    if "\<forall>d \<in> set xs. fails env d = None" for xs
    using that assms(5) by (induction xs) simp_all
  have R: "run_until_failure env (xs @ c # rest) = xs @ [c]"
    if "\<forall>d \<in> set xs. fails env d = None" for xs
    using that assms(5) by (induction xs) simp_all
  show ?thesis
    using assms(2) F [OF assms(4)] R [OF assms(4)]
    by (simp add: run_entered [of S env body, OF assms(1)] assms(3) cleanup_result_def
          split: option.splits)
qed



lemma wait_before_screenshot:
  assumes "S \<in> scripts" and "Screenshot p fp \<in> set (trace (snd (run S env fs)))"
  shows "\<exists>sel st t. WaitForSelector sel st t \<in> set (trace (snd (run S env fs)))
                    \<and> fails env (WaitForSelector sel st t) = None"
proof -
  obtain body where S: "S env = script env body"
    and B: "body = verify_app_body \<or> body = verify_autopilot_body \<or> body = verify_app_loads_body"
    using scripts_shape [OF assms(1)] by blast
  have E: "try_entered env"
    using assms by (rule call_in_try) (simp_all add: prelude_def)
  have R: "Screenshot p fp \<in> set (run_until_failure env (calls_of body))"
    using assms(2) E by (simp add: trace_closed_form [of S env body, OF S] screenshot_in_trace)
  have "\<exists>sel st t. WaitForSelector sel st t \<in> set (run_until_failure env (calls_of body))
                    \<and> fails env (WaitForSelector sel st t) = None"
    using B R
    by (auto simp: verify_app_body_def verify_autopilot_body_def verify_app_loads_body_def
          split: option.splits)
  then show ?thesis
    using E by (auto simp: run_entered [of S env body, OF S])
qed

section \<open>The waits in the trace\<close>

lemma readiness_timeouts_append:
  "readiness_timeouts (xs @ ys) = readiness_timeouts xs @ readiness_timeouts ys"
  by (induction xs rule: readiness_timeouts.induct) simp_all

lemma settle_waits_append:
  "settle_waits (xs @ ys) = settle_waits xs @ settle_waits ys"
  by (induction xs rule: settle_waits.induct) simp_all

lemma readiness_timeouts_of_trace:
  "readiness_timeouts (expected_trace env cs) =
     (if try_entered env then readiness_timeouts (run_until_failure env cs) else [])"
  by (simp add: expected_trace_def readiness_timeouts_append prelude_def try_entered_def
        split: option.splits)

lemma settle_waits_of_trace:
  "settle_waits (expected_trace env cs) =
     (if try_entered env then settle_waits (run_until_failure env cs) else [])"
  by (simp add: expected_trace_def settle_waits_append prelude_def try_entered_def
        split: option.splits)

lemma failed_wait_takes_failure_path:
  assumes "S \<in> scripts"
    and "WaitForSelector sel st t \<in> set (trace (snd (run S env fs)))"
    and "fails env (WaitForSelector sel st t) = Some m"
  shows "(\<forall>p fp. Screenshot p fp \<notin> set (trace (snd (run S env fs))))
       \<and> last (console (snd (run S env fs))) = ''Error: '' @ m"
proof -
  have E: "try_entered env"
    using assms(1,2) by (rule call_in_try) (simp_all add: prelude_def)
  have "last (console (snd (run S env fs))) = ''Error: '' @ m"
    using assms(1) E assms(2) _ _ assms(3) by (rule failure_is_printed) simp_all
  then show ?thesis
    using no_screenshot_after_failed_wait [OF assms] by blast
qed

lemma all_calls_return:
  "(\<forall>c \<in> set (run_until_failure env cs). fails env c = None) \<Longrightarrow>
   first_failure env cs = None \<and> run_until_failure env cs = cs"
  by (induction cs) (auto split: option.splits)

lemma trace_when_screenshot_reached:
  assumes "S env = script env body" and "calls_of body = cs @ [Screenshot p fp]"
    and "Screenshot p fp \<in> set (trace (snd (run S env fs)))"
    and "\<forall>c \<in> set (prelude @ cs). fails env c = None"
  shows "trace (snd (run S env fs)) = prelude @ cs @ [Screenshot p fp, Close, SyncPlaywrightExit]"
proof -
  have E: "try_entered env"
    using assms(4) by (simp add: try_entered_def first_failure_None_iff)
  have "run_until_failure env cs = cs"
    using assms(4) set_run_until_failure [of env cs] all_calls_return [of env cs] by auto
  moreover have "first_failure env cs = None"
    using assms(4) by (simp add: first_failure_None_iff)
  moreover have "run_until_failure env (xs @ [c]) =
      (if first_failure env xs = None then xs @ [c] else run_until_failure env xs)" for xs c
    by (induction xs) (auto split: option.splits)
  ultimately have "run_until_failure env (calls_of body) = cs @ [Screenshot p fp]"
    using assms(2) by simp
  then show ?thesis
    using E by (simp add: run_entered [of S env body, OF assms(1)])
qed

section \<open>The console\<close>

lemma every_call_returned:
  assumes "S env = script env body"
    and "list_all (\<lambda>c. fails env c = None) (trace (snd (run S env fs)))"
  shows "try_entered env \<and> first_failure env (calls_of body) = None"
proof -
  have T: "trace (snd (run S env fs)) = expected_trace env (calls_of body)"
    using assms(1) by (rule trace_closed_form)
  have A: "fails env c = None" if "c \<in> set (expected_trace env (calls_of body))" for c
    using assms(2) that unfolding T list_all_iff by blast
  have "SyncPlaywrightEnter \<in> set (expected_trace env (calls_of body))"
    by (simp add: expected_trace_def prelude_def split: option.splits)
  then have E0: "fails env SyncPlaywrightEnter = None"
    by (rule A)
  have E: "try_entered env"
  proof (rule ccontr)
    assume N: "\<not> try_entered env"
    have X: "expected_trace env (calls_of body) =
               run_until_failure env prelude @ [SyncPlaywrightExit]"
      using E0 N by (simp add: expected_trace_def)
    have "\<forall>c \<in> set (run_until_failure env prelude). fails env c = None"
    proof
      fix c
      assume "c \<in> set (run_until_failure env prelude)"
      then have "c \<in> set (expected_trace env (calls_of body))"
        unfolding X by simp
      then show "fails env c = None" by (rule A)
    qed
    then have "first_failure env prelude = None"
      using all_calls_return by blast
    then show False
      using N by (simp add: try_entered_def)
  qed
  have Y: "expected_trace env (calls_of body) =
             prelude @ run_until_failure env (calls_of body) @ [Close, SyncPlaywrightExit]"
    using E0 E by (simp add: expected_trace_def)
  have "\<forall>c \<in> set (run_until_failure env (calls_of body)). fails env c = None"
  proof
    fix c
    assume "c \<in> set (run_until_failure env (calls_of body))"
    then have "c \<in> set (expected_trace env (calls_of body))"
      unfolding Y by simp
    then show "fails env c = None" by (rule A)
  qed
  then have "first_failure env (calls_of body) = None"
    using all_calls_return by blast
  then show ?thesis
    using E by simp
qed

lemma console_on_success:
  assumes "S env = script env body" and "try_entered env"
    and "first_failure env (calls_of body) = None"
  shows "console (snd (run S env fs)) = printed env body"
  using assms(2,3) by (simp add: run_entered [of S env body, OF assms(1)])

lemma some_call_failed_iff:
  "(\<exists>c \<in> set (run_until_failure env cs). fails env c \<noteq> None) \<longleftrightarrow> first_failure env cs \<noteq> None"
  by (induction cs) (auto split: option.splits)

lemma bodies_never_exit:
  assumes "body = verify_app_body \<or> body = verify_autopilot_body \<or> body = verify_app_loads_body"
  shows "SyncPlaywrightExit \<notin> set (calls_of body)"
  using assms by (auto simp: verify_app_body_def verify_autopilot_body_def verify_app_loads_body_def)

lemma no_error_line_in_progress:
  assumes "body = verify_app_body \<or> body = verify_autopilot_body \<or> body = verify_app_loads_body"
  shows "''Error: '' @ m \<notin> set (printed env body)"
  using assms
  by (auto simp: verify_app_body_def verify_autopilot_body_def verify_app_loads_body_def
        split: option.splits)

lemma success_line_printed_iff:
  "''Screenshot taken successfully'' \<in> set (printed env verify_app_body)
     \<longleftrightarrow> first_failure env (calls_of verify_app_body) = None"
  "''Screenshot saved.'' \<in> set (printed env verify_autopilot_body)
     \<longleftrightarrow> first_failure env (calls_of verify_autopilot_body) = None"
  "''Screenshot taken: verification/app_running.png'' \<in> set (printed env verify_app_loads_body)
     \<longleftrightarrow> first_failure env (calls_of verify_app_loads_body) = None"
  by (simp_all add: verify_app_body_def verify_autopilot_body_def verify_app_loads_body_def
        split: option.splits)

lemma console_entered:
  assumes "S env = script env body" and "try_entered env"
  shows "console (snd (run S env fs)) =
           printed env body @
           (case first_failure env (calls_of body) of
              None \<Rightarrow> [] | Some e \<Rightarrow> [''Error: '' @ message e])"
  using assms(2) by (simp add: run_entered [of S env body, OF assms(1)])

lemma error_line_iff_failure:
  assumes "S env = script env body" and "try_entered env"
    and "body = verify_app_body \<or> body = verify_autopilot_body \<or> body = verify_app_loads_body"
  shows "(\<exists>m. ''Error: '' @ m \<in> set (console (snd (run S env fs))))
         \<longleftrightarrow> first_failure env (calls_of body) \<noteq> None"
proof (cases "first_failure env (calls_of body)")
  case None
  then show ?thesis
    using no_error_line_in_progress [OF assms(3)]
    by (simp add: console_entered [of S env body, OF assms(1,2)])
next
  case (Some e)
  then have "''Error: '' @ message e \<in> set (console (snd (run S env fs)))"
    by (simp add: console_entered [of S env body, OF assms(1,2)])
  then show ?thesis
    using Some by blast
qed

lemma failure_in_trace_iff:
  assumes "S env = script env body" and "try_entered env"
    and "body = verify_app_body \<or> body = verify_autopilot_body \<or> body = verify_app_loads_body"
  shows "(\<exists>c \<in> set (trace (snd (run S env fs))).
            c \<noteq> Close \<and> c \<noteq> SyncPlaywrightExit \<and> fails env c \<noteq> None)
         \<longleftrightarrow> first_failure env (calls_of body) \<noteq> None"
proof -
  have T: "set (trace (snd (run S env fs))) =
             set prelude \<union> set (run_until_failure env (calls_of body))
             \<union> {Close, SyncPlaywrightExit}"
    using assms(2) by (auto simp: run_entered [of S env body, OF assms(1)])
  have P: "\<And>c. c \<in> set prelude \<Longrightarrow> fails env c = None"
    using assms(2) by (rule prelude_succeeds)
  have N: "\<And>c. c \<in> set (run_until_failure env (calls_of body)) \<Longrightarrow>
             c \<noteq> Close \<and> c \<noteq> SyncPlaywrightExit"
    using bodies_never_close [OF assms(3)] bodies_never_exit [OF assms(3)]
      set_run_until_failure [of env "calls_of body"]
    by blast
  have "(\<exists>c \<in> set (trace (snd (run S env fs))).
            c \<noteq> Close \<and> c \<noteq> SyncPlaywrightExit \<and> fails env c \<noteq> None)
        \<longleftrightarrow> (\<exists>c \<in> set (run_until_failure env (calls_of body)). fails env c \<noteq> None)"
    unfolding T using P N by auto
  then show ?thesis
    by (simp only: some_call_failed_iff)
qed

lemma error_line_iff:
  assumes "S \<in> scripts" and "try_entered env"
  shows "(\<exists>m. ''Error: '' @ m \<in> set (console (snd (run S env fs))))
         \<longleftrightarrow> (\<exists>c \<in> set (trace (snd (run S env fs))).
                c \<noteq> Close \<and> c \<noteq> SyncPlaywrightExit \<and> fails env c \<noteq> None)"
proof -
  obtain body where S: "S env = script env body"
    and B: "body = verify_app_body \<or> body = verify_autopilot_body \<or> body = verify_app_loads_body"
    using scripts_shape [OF assms(1)] by blast
  show ?thesis
    unfolding error_line_iff_failure [of S env body fs, OF S assms(2) B]
      failure_in_trace_iff [of S env body fs, OF S assms(2) B]
    by (rule refl)
qed

lemma failure_line_in_console:
  assumes "S \<in> scripts" and "try_entered env"
    and "c \<in> set (trace (snd (run S env fs)))"
    and "c \<noteq> Close" and "c \<noteq> SyncPlaywrightExit" and "fails env c = Some m"
  shows "''Error: '' @ m \<in> set (console (snd (run S env fs)))"
proof -
  obtain body where S: "S env = script env body"
    using scripts_shape [OF assms(1)] by blast
  have "c \<notin> set prelude"
    using prelude_succeeds [OF assms(2)] assms(6) by auto
  then have "c \<in> set (run_until_failure env (calls_of body))"
    using assms(2-5) by (simp add: run_entered [of S env body, OF S])
  then have "first_failure env (calls_of body) = Some (Error c m)"
    using assms(6) by (rule failed_call_is_first_failure)
  then show ?thesis
    by (simp add: console_entered [of S env body, OF S assms(2)])
qed

lemma success_line_iff_no_failure:
  assumes "try_entered env"
  shows "''Screenshot taken successfully'' \<in> set (console (snd (run verify_app env fs)))
           \<longleftrightarrow> first_failure env (calls_of verify_app_body) = None"
    "''Screenshot saved.'' \<in> set (console (snd (run verify_autopilot env fs)))
           \<longleftrightarrow> first_failure env (calls_of verify_autopilot_body) = None"
    "''Screenshot taken: verification/app_running.png''
         \<in> set (console (snd (run verify_app_loads env fs)))
           \<longleftrightarrow> first_failure env (calls_of verify_app_loads_body) = None"
  by (simp_all add: console_entered [of verify_app env verify_app_body, OF verify_app_script assms]
        console_entered [of verify_autopilot env verify_autopilot_body,
          OF verify_autopilot_script assms]
        console_entered [of verify_app_loads env verify_app_loads_body,
          OF verify_app_loads_script assms]
        success_line_printed_iff split: option.splits)

lemma screenshot_completed_iff_no_failure:
  assumes "try_entered env"
  shows "Screenshot ''verification/app_screenshot.png'' None
           \<in> set (trace (snd (run verify_app env fs)))
         \<and> fails env (Screenshot ''verification/app_screenshot.png'' None) = None
           \<longleftrightarrow> first_failure env (calls_of verify_app_body) = None"
    "Screenshot ''verification/autopilot_active.png'' None
           \<in> set (trace (snd (run verify_autopilot env fs)))
         \<and> fails env (Screenshot ''verification/autopilot_active.png'' None) = None
           \<longleftrightarrow> first_failure env (calls_of verify_autopilot_body) = None"
    "Screenshot ''verification/app_running.png'' None
           \<in> set (trace (snd (run verify_app_loads env fs)))
         \<and> fails env (Screenshot ''verification/app_running.png'' None) = None
           \<longleftrightarrow> first_failure env (calls_of verify_app_loads_body) = None"
proof -
  have P: "\<forall>c \<in> set prelude. fails env c = None"
    using assms by (simp add: try_entered_def first_failure_None_iff)
  show "Screenshot ''verification/app_screenshot.png'' None
           \<in> set (trace (snd (run verify_app env fs)))
         \<and> fails env (Screenshot ''verification/app_screenshot.png'' None) = None
           \<longleftrightarrow> first_failure env (calls_of verify_app_body) = None"
    unfolding screenshot_reached first_failure_None_iff
    using P by (auto simp: verify_app_body_def)
  show "Screenshot ''verification/autopilot_active.png'' None
           \<in> set (trace (snd (run verify_autopilot env fs)))
         \<and> fails env (Screenshot ''verification/autopilot_active.png'' None) = None
           \<longleftrightarrow> first_failure env (calls_of verify_autopilot_body) = None"
    unfolding screenshot_reached first_failure_None_iff
    using P by (auto simp: verify_autopilot_body_def)
  show "Screenshot ''verification/app_running.png'' None
           \<in> set (trace (snd (run verify_app_loads env fs)))
         \<and> fails env (Screenshot ''verification/app_running.png'' None) = None
           \<longleftrightarrow> first_failure env (calls_of verify_app_loads_body) = None"
    unfolding screenshot_reached first_failure_None_iff
    using P by (auto simp: verify_app_loads_body_def)
qed

section \<open>Three concrete runs\<close>

lemma run_ok:
  "run verify_app env_ok fs =
     (None,
      \<lparr>console = [''Screenshot taken successfully''],
       files = fs(''verification/app_screenshot.png'' \<mapsto> [137, 80, 78, 71, 13, 10, 26, 10]),
       trace = [SyncPlaywrightEnter, Launch True, NewPage,
                Goto ''http://localhost:5173'',
                WaitForSelector ''#canvas-container canvas'' None (Some 10000),
                Screenshot ''verification/app_screenshot.png'' None,
                Close, SyncPlaywrightExit]\<rparr>)"
  "run verify_autopilot env_ok fs =
     (None,
      \<lparr>console = [''Navigating to app...'', ''Clicking start overlay...'',
                  ''Waiting for autopilot...'', ''Taking screenshot...'', ''Screenshot saved.''],
       files = fs(''verification/autopilot_active.png'' \<mapsto> [137, 80, 78, 71, 13, 10, 26, 10]),
       trace = [SyncPlaywrightEnter, Launch True, NewPage,
                Goto ''http://localhost:8000'',
                WaitForSelector ''#canvas-container canvas'' None (Some 5000),
                Click ''#start-overlay'',
                WaitForTimeout 3000,
                Screenshot ''verification/autopilot_active.png'' None,
                Close, SyncPlaywrightExit]\<rparr>)"
  "run verify_app_loads env_ok fs =
     (None,
      \<lparr>console = [''Screenshot taken: verification/app_running.png''],
       files = fs(''verification/app_running.png'' \<mapsto> [137, 80, 78, 71, 13, 10, 26, 10]),
       trace = [SyncPlaywrightEnter, Launch True, NewPage,
                Goto ''http://localhost:8080'',
                WaitForSelector ''canvas'' (Some Visible) None,
                WaitForTimeout 2000,
                Screenshot ''verification/app_running.png'' None,
                Close, SyncPlaywrightExit]\<rparr>)"
  by (simp_all add: run_def verify_app_def verify_autopilot_def verify_app_loads_def
        with_sync_playwright_def try_except_finally_def seq_def call_def print_def env_ok_def)

lemma run_timeout:
  "run verify_app env_timeout fs =
     (None,
      \<lparr>console = [''Error: Timeout exceeded.''], files = fs,
       trace = [SyncPlaywrightEnter, Launch True, NewPage,
                Goto ''http://localhost:5173'',
                WaitForSelector ''#canvas-container canvas'' None (Some 10000),
                Close, SyncPlaywrightExit]\<rparr>)"
  "run verify_autopilot env_timeout fs =
     (None,
      \<lparr>console = [''Navigating to app...'', ''Error: Timeout exceeded.''], files = fs,
       trace = [SyncPlaywrightEnter, Launch True, NewPage,
                Goto ''http://localhost:8000'',
                WaitForSelector ''#canvas-container canvas'' None (Some 5000),
                Close, SyncPlaywrightExit]\<rparr>)"
  "run verify_app_loads env_timeout fs =
     (None,
      \<lparr>console = [''Error: Timeout exceeded.''], files = fs,
       trace = [SyncPlaywrightEnter, Launch True, NewPage,
                Goto ''http://localhost:8080'',
                WaitForSelector ''canvas'' (Some Visible) None,
                Close, SyncPlaywrightExit]\<rparr>)"
  by (simp_all add: run_def verify_app_def verify_autopilot_def verify_app_loads_def
        with_sync_playwright_def try_except_finally_def seq_def call_def print_def
        env_timeout_def)

lemma run_no_page:
  "run verify_app env_no_page fs =
     (Some (Error NewPage ''Target page, context or browser has been closed''),
      \<lparr>console = [], files = fs,
       trace = [SyncPlaywrightEnter, Launch True, NewPage, SyncPlaywrightExit]\<rparr>)"
  by (simp add: run_def verify_app_def with_sync_playwright_def seq_def call_def env_no_page_def)

section \<open>The claims\<close>

subsection \<open>C1: which failures are caught\<close>

text \<open>
  Claim C1, as amended. For each of the three scripts: once the \<^verbatim>\<open>try\<close> block is entered,
  no exception of a call inside it (navigation, readiness wait, click, settle wait,
  screenshot) leaves the run function: an exception that leaves it comes from
  \<^verbatim>\<open>browser.close()\<close> or from the exit of the \<^verbatim>\<open>with\<close> block, and when those two return the
  function returns normally; the failure of a call inside the \<^verbatim>\<open>try\<close> block is printed as
  the last console line, \<^verbatim>\<open>Error: \<close> followed by the exception's message. A failure while
  opening the page (\<^verbatim>\<open>browser.new_page()\<close>, before the \<^verbatim>\<open>try\<close>) is not caught: it leaves the
  run function.
\<close>

theorem failures_inside_try_are_caught:
  assumes "S \<in> scripts"
  shows "(try_entered env \<longrightarrow>
            (\<forall>e. fst (run S env fs) = Some e \<longrightarrow> origin e = Close \<or> origin e = SyncPlaywrightExit)
          \<and> (\<forall>c m. c \<in> set (trace (snd (run S env fs))) \<and> c \<noteq> Close \<and> c \<noteq> SyncPlaywrightExit
                    \<and> fails env c = Some m
                 \<longrightarrow> last (console (snd (run S env fs))) = ''Error: '' @ m)
          \<and> (fails env Close = None \<and> fails env SyncPlaywrightExit = None
                 \<longrightarrow> fst (run S env fs) = None))
       \<and> (fails env SyncPlaywrightEnter = None \<and> fails env (Launch True) = None
            \<and> fails env NewPage = Some m' \<and> fails env SyncPlaywrightExit = None
          \<longrightarrow> fst (run S env fs) = Some (Error NewPage m'))"
  using escaping_exception [OF assms] clean_return [OF assms] failure_is_printed [OF assms]
    page_failure_escapes [OF assms]
  by blast

text \<open>
  Claim C1 as stated fails for step 2: in \<^verbatim>\<open>verify_app\<close>, when opening the page raises, the
  exception leaves the run function.
\<close>

theorem page_failure_escapes_counterexample:
  "fst (run verify_app env_no_page Map.empty) =
     Some (Error NewPage ''Target page, context or browser has been closed'')"
  by (simp add: run_def verify_app_def with_sync_playwright_def seq_def call_def env_no_page_def)

text \<open>
  The theorem at a run of \<^verbatim>\<open>verify_app_loads\<close> whose readiness wait times out, and at one
  where opening the page raises.
\<close>

theorem failures_inside_try_are_caught_witness:
  "verify_app_loads \<in> scripts \<and> try_entered env_timeout
   \<and> WaitForSelector ''canvas'' (Some Visible) None \<in> set (trace (snd (run verify_app_loads env_timeout Map.empty)))
   \<and> fails env_timeout (WaitForSelector ''canvas'' (Some Visible) None) = Some ''Timeout exceeded.''
   \<and> fails env_timeout Close = None \<and> fails env_timeout SyncPlaywrightExit = None
   \<and> fst (run verify_app_loads env_timeout Map.empty) = None
   \<and> last (console (snd (run verify_app_loads env_timeout Map.empty))) = ''Error: Timeout exceeded.''
   \<and> fails env_no_page NewPage = Some ''Target page, context or browser has been closed''
   \<and> fst (run verify_app_loads env_no_page Map.empty) =
     Some (Error NewPage ''Target page, context or browser has been closed'')"
proof -
  have S: "verify_app_loads \<in> scripts" by (simp add: scripts_def)
  have E: "try_entered env_timeout"
    by (simp add: try_entered_def prelude_def env_timeout_def)
  have T: "WaitForSelector ''canvas'' (Some Visible) None
             \<in> set (trace (snd (run verify_app_loads env_timeout Map.empty)))"
    by (simp add: run_def verify_app_loads_def with_sync_playwright_def try_except_finally_def
          seq_def call_def print_def env_timeout_def)
  have F: "fails env_timeout (WaitForSelector ''canvas'' (Some Visible) None) = Some ''Timeout exceeded.''"
    "fails env_timeout Close = None" "fails env_timeout SyncPlaywrightExit = None"
    by (simp_all add: env_timeout_def)
  have P: "fails env_no_page SyncPlaywrightEnter = None" "fails env_no_page (Launch True) = None"
    "fails env_no_page NewPage = Some ''Target page, context or browser has been closed''"
    "fails env_no_page SyncPlaywrightExit = None"
    by (simp_all add: env_no_page_def)
  show ?thesis
    using failures_inside_try_are_caught [OF S, of env_timeout Map.empty]
      failures_inside_try_are_caught [OF S, of env_no_page Map.empty] S E T F P
    by auto
qed

subsection \<open>C2: closing the browser\<close>

text \<open>
  Claim C2, as amended. For each of the three scripts, \<^verbatim>\<open>browser.close()\<close> is executed
  exactly once when the \<^verbatim>\<open>try\<close> block was entered (the browser was launched and the page was
  opened), whatever the calls inside the \<^verbatim>\<open>try\<close> block do, and then it is the last call
  before the \<^verbatim>\<open>with\<close> block exits; it is not executed when the \<^verbatim>\<open>try\<close> block was not
  entered, which includes the run where opening the page raises.
\<close>

theorem browser_closed_once_when_try_entered:
  assumes "S \<in> scripts"
  shows "count_list (trace (snd (run S env fs))) Close = (if try_entered env then 1 else 0)
       \<and> (try_entered env \<longrightarrow>
            last (butlast (trace (snd (run S env fs)))) = Close
          \<and> last (trace (snd (run S env fs))) = SyncPlaywrightExit)"
  using close_count [OF assms] close_is_last_before_exit [OF assms] by blast

text \<open>
  Claim C2 as stated fails when opening the page raises: the browser was launched, and
  \<^verbatim>\<open>browser.close()\<close> is never called.
\<close>

theorem browser_not_closed_counterexample:
  "Launch True \<in> set (trace (snd (run verify_app env_no_page Map.empty)))
   \<and> count_list (trace (snd (run verify_app env_no_page Map.empty))) Close = 0"
  by (simp add: run_def verify_app_def with_sync_playwright_def seq_def call_def env_no_page_def)

text \<open>
  The theorem at a run of \<^verbatim>\<open>verify_autopilot\<close> with no server listening, and at one where
  opening the page raises.
\<close>

theorem browser_closed_once_when_try_entered_witness:
  "verify_autopilot \<in> scripts \<and> try_entered env_no_server
   \<and> count_list (trace (snd (run verify_autopilot env_no_server Map.empty))) Close = 1
   \<and> last (butlast (trace (snd (run verify_autopilot env_no_server Map.empty)))) = Close
   \<and> last (trace (snd (run verify_autopilot env_no_server Map.empty))) = SyncPlaywrightExit
   \<and> \<not> try_entered env_no_page
   \<and> count_list (trace (snd (run verify_autopilot env_no_page Map.empty))) Close = 0"
proof -
  have S: "verify_autopilot \<in> scripts" by (simp add: scripts_def)
  have E: "try_entered env_no_server" "\<not> try_entered env_no_page"
    by (simp_all add: try_entered_def prelude_def env_no_server_def env_no_page_def)
  show ?thesis
    using browser_closed_once_when_try_entered [OF S, of env_no_server Map.empty]
      browser_closed_once_when_try_entered [OF S, of env_no_page Map.empty] S E
    by simp
qed

subsection \<open>C3: the timeout of the readiness wait\<close>

text \<open>
  Claim C3, as amended. Whenever the readiness wait is made, \<^verbatim>\<open>verify_app\<close> passes it an
  explicit timeout of 10000 ms and \<^verbatim>\<open>verify_autopilot\<close> one of 5000 ms, while
  \<^verbatim>\<open>verify_app_loads\<close> passes no timeout (the library's default applies). In all three, when
  the wait raises, the run takes the failure path: no screenshot call is made and the last
  console line is \<^verbatim>\<open>Error: \<close> followed by the message of the wait's exception.
\<close>

theorem readiness_wait_timeout:
  "readiness_timeouts (trace (snd (run verify_app env fs))) =
     (if try_entered env \<and> fails env (Goto ''http://localhost:5173'') = None
      then [Some 10000] else [])
   \<and> readiness_timeouts (trace (snd (run verify_autopilot env fs))) =
     (if try_entered env \<and> fails env (Goto ''http://localhost:8000'') = None
      then [Some 5000] else [])
   \<and> readiness_timeouts (trace (snd (run verify_app_loads env fs))) =
     (if try_entered env \<and> fails env (Goto ''http://localhost:8080'') = None
      then [None] else [])
   \<and> (S \<in> scripts \<and> WaitForSelector sel st t \<in> set (trace (snd (run S env fs)))
        \<and> fails env (WaitForSelector sel st t) = Some m
       \<longrightarrow> (\<forall>p fp. Screenshot p fp \<notin> set (trace (snd (run S env fs))))
           \<and> last (console (snd (run S env fs))) = ''Error: '' @ m)"
proof -
  have A: "readiness_timeouts (trace (snd (run verify_app env fs))) =
     (if try_entered env \<and> fails env (Goto ''http://localhost:5173'') = None
      then [Some 10000] else [])"
    by (simp add: trace_closed_form [OF verify_app_script] verify_app_body_def
          readiness_timeouts_of_trace split: option.splits)
  have B: "readiness_timeouts (trace (snd (run verify_autopilot env fs))) =
     (if try_entered env \<and> fails env (Goto ''http://localhost:8000'') = None
      then [Some 5000] else [])"
    by (simp add: trace_closed_form [OF verify_autopilot_script] verify_autopilot_body_def
          readiness_timeouts_of_trace split: option.splits)
  have C: "readiness_timeouts (trace (snd (run verify_app_loads env fs))) =
     (if try_entered env \<and> fails env (Goto ''http://localhost:8080'') = None
      then [None] else [])"
    by (simp add: trace_closed_form [OF verify_app_loads_script] verify_app_loads_body_def
          readiness_timeouts_of_trace split: option.splits)
  show ?thesis
    using A B C failed_wait_takes_failure_path [of S sel st t env fs m] by blast
qed

text \<open>
  Claim C3 as stated fails for \<^verbatim>\<open>verify_app_loads\<close>: its readiness wait is made without a
  timeout argument.
\<close>

theorem no_explicit_timeout_counterexample:
  "readiness_timeouts (trace (snd (run verify_app_loads env_ok Map.empty))) = [None]
   \<and> \<not> list_all explicit_5_to_10_seconds
          (readiness_timeouts (trace (snd (run verify_app_loads env_ok Map.empty))))"
  by (simp add: run_ok)

text \<open>The theorem at runs whose readiness wait times out.\<close>

theorem readiness_wait_timeout_witness:
  "try_entered env_timeout \<and> fails env_timeout (Goto ''http://localhost:5173'') = None
   \<and> readiness_timeouts (trace (snd (run verify_app env_timeout disk0))) = [Some 10000]
   \<and> fails env_timeout (Goto ''http://localhost:8000'') = None
   \<and> readiness_timeouts (trace (snd (run verify_autopilot env_timeout disk0))) = [Some 5000]
   \<and> fails env_timeout (Goto ''http://localhost:8080'') = None
   \<and> readiness_timeouts (trace (snd (run verify_app_loads env_timeout disk0))) = [None]
   \<and> verify_app_loads \<in> scripts
   \<and> WaitForSelector ''canvas'' (Some Visible) None
        \<in> set (trace (snd (run verify_app_loads env_timeout disk0)))
   \<and> fails env_timeout (WaitForSelector ''canvas'' (Some Visible) None) = Some ''Timeout exceeded.''
   \<and> Screenshot ''verification/app_running.png'' None
        \<notin> set (trace (snd (run verify_app_loads env_timeout disk0)))
   \<and> last (console (snd (run verify_app_loads env_timeout disk0))) = ''Error: Timeout exceeded.''"
proof -
  have E: "try_entered env_timeout"
    by (simp add: try_entered_def prelude_def env_timeout_def)
  have G: "fails env_timeout (Goto ''http://localhost:5173'') = None"
    "fails env_timeout (Goto ''http://localhost:8000'') = None"
    "fails env_timeout (Goto ''http://localhost:8080'') = None"
    by (simp_all add: env_timeout_def)
  have F: "fails env_timeout (WaitForSelector ''canvas'' (Some Visible) None) = Some ''Timeout exceeded.''"
    by (simp add: env_timeout_def)
  have T: "WaitForSelector ''canvas'' (Some Visible) None
        \<in> set (trace (snd (run verify_app_loads env_timeout disk0)))"
    by (simp add: run_timeout)
  note W = readiness_wait_timeout [of env_timeout disk0 verify_app_loads "''canvas''"
      "Some Visible" None "''Timeout exceeded.''"]
  have W1: "readiness_timeouts (trace (snd (run verify_app env_timeout disk0))) = [Some 10000]"
    "readiness_timeouts (trace (snd (run verify_autopilot env_timeout disk0))) = [Some 5000]"
    "readiness_timeouts (trace (snd (run verify_app_loads env_timeout disk0))) = [None]"
    using W E G by simp_all
  have W2: "Screenshot ''verification/app_running.png'' None
        \<notin> set (trace (snd (run verify_app_loads env_timeout disk0)))"
    "last (console (snd (run verify_app_loads env_timeout disk0))) = ''Error: Timeout exceeded.''"
    using W T F scripts_mem(3) by simp_all
  show ?thesis
    using E G F T W1 W2 scripts_mem(3) by (intro conjI)
qed

subsection \<open>C4: the settle wait\<close>

text \<open>
  Claim C4, as amended. \<^verbatim>\<open>verify_app\<close> performs no settle wait in any run. \<^verbatim>\<open>verify_autopilot\<close>
  waits 3000 ms exactly when the click returned, and \<^verbatim>\<open>verify_app_loads\<close> waits 2000 ms
  exactly when the readiness wait returned; in both, a run that reaches the screenshot has
  made the settle wait after the readiness wait (and the click) and before the screenshot.
\<close>

theorem settle_wait_before_screenshot:
  "settle_waits (trace (snd (run verify_app env fs))) = []
   \<and> settle_waits (trace (snd (run verify_autopilot env fs))) =
     (if \<forall>c \<in> set (prelude @
            [Goto ''http://localhost:8000'',
             WaitForSelector ''#canvas-container canvas'' None (Some 5000),
             Click ''#start-overlay'']).
          fails env c = None
      then [3000] else [])
   \<and> (Screenshot ''verification/autopilot_active.png'' None
         \<in> set (trace (snd (run verify_autopilot env fs)))
       \<longrightarrow> trace (snd (run verify_autopilot env fs)) =
             [SyncPlaywrightEnter, Launch True, NewPage,
              Goto ''http://localhost:8000'',
              WaitForSelector ''#canvas-container canvas'' None (Some 5000),
              Click ''#start-overlay'',
              WaitForTimeout 3000,
              Screenshot ''verification/autopilot_active.png'' None,
              Close, SyncPlaywrightExit])
   \<and> settle_waits (trace (snd (run verify_app_loads env fs))) =
     (if \<forall>c \<in> set (prelude @
            [Goto ''http://localhost:8080'',
             WaitForSelector ''canvas'' (Some Visible) None]).
          fails env c = None
      then [2000] else [])
   \<and> (Screenshot ''verification/app_running.png'' None
         \<in> set (trace (snd (run verify_app_loads env fs)))
       \<longrightarrow> trace (snd (run verify_app_loads env fs)) =
             [SyncPlaywrightEnter, Launch True, NewPage,
              Goto ''http://localhost:8080'',
              WaitForSelector ''canvas'' (Some Visible) None,
              WaitForTimeout 2000,
              Screenshot ''verification/app_running.png'' None,
              Close, SyncPlaywrightExit])"
proof -
  have E: "try_entered env \<longleftrightarrow> (\<forall>c \<in> set prelude. fails env c = None)"
    by (simp add: try_entered_def first_failure_None_iff)
  have A: "settle_waits (trace (snd (run verify_app env fs))) = []"
    by (simp add: trace_closed_form [OF verify_app_script] verify_app_body_def
          settle_waits_of_trace split: option.splits)
  have B1: "settle_waits (trace (snd (run verify_autopilot env fs))) =
     (if \<forall>c \<in> set (prelude @
            [Goto ''http://localhost:8000'',
             WaitForSelector ''#canvas-container canvas'' None (Some 5000),
             Click ''#start-overlay'']).
          fails env c = None
      then [3000] else [])"
    using E
    by (simp add: trace_closed_form [OF verify_autopilot_script] verify_autopilot_body_def
          settle_waits_of_trace ball_Un split: option.splits)
  have B2: "Screenshot ''verification/autopilot_active.png'' None
         \<in> set (trace (snd (run verify_autopilot env fs)))
       \<longrightarrow> trace (snd (run verify_autopilot env fs)) =
             [SyncPlaywrightEnter, Launch True, NewPage,
              Goto ''http://localhost:8000'',
              WaitForSelector ''#canvas-container canvas'' None (Some 5000),
              Click ''#start-overlay'',
              WaitForTimeout 3000,
              Screenshot ''verification/autopilot_active.png'' None,
              Close, SyncPlaywrightExit]"
  proof
    assume T: "Screenshot ''verification/autopilot_active.png'' None
         \<in> set (trace (snd (run verify_autopilot env fs)))"
    then have "\<forall>c \<in> set (prelude @
            [Goto ''http://localhost:8000'',
             WaitForSelector ''#canvas-container canvas'' None (Some 5000),
             Click ''#start-overlay'',
             WaitForTimeout 3000]).
          fails env c = None"
      by (simp only: screenshot_reached) simp
    with T show "trace (snd (run verify_autopilot env fs)) =
             [SyncPlaywrightEnter, Launch True, NewPage,
              Goto ''http://localhost:8000'',
              WaitForSelector ''#canvas-container canvas'' None (Some 5000),
              Click ''#start-overlay'',
              WaitForTimeout 3000,
              Screenshot ''verification/autopilot_active.png'' None,
              Close, SyncPlaywrightExit]"
      using trace_when_screenshot_reached [where S = verify_autopilot
          and body = verify_autopilot_body and cs = "[Goto ''http://localhost:8000'',
             WaitForSelector ''#canvas-container canvas'' None (Some 5000),
             Click ''#start-overlay'',
             WaitForTimeout 3000]"
          and p = "''verification/autopilot_active.png''" and fp = None
          and env = env and fs = fs, OF verify_autopilot_script]
      by (simp add: verify_autopilot_body_def prelude_def)
  qed
  have C1: "settle_waits (trace (snd (run verify_app_loads env fs))) =
     (if \<forall>c \<in> set (prelude @
            [Goto ''http://localhost:8080'',
             WaitForSelector ''canvas'' (Some Visible) None]).
          fails env c = None
      then [2000] else [])"
    using E
    by (simp add: trace_closed_form [OF verify_app_loads_script] verify_app_loads_body_def
          settle_waits_of_trace ball_Un split: option.splits)
  have C2: "Screenshot ''verification/app_running.png'' None
         \<in> set (trace (snd (run verify_app_loads env fs)))
       \<longrightarrow> trace (snd (run verify_app_loads env fs)) =
             [SyncPlaywrightEnter, Launch True, NewPage,
              Goto ''http://localhost:8080'',
              WaitForSelector ''canvas'' (Some Visible) None,
              WaitForTimeout 2000,
              Screenshot ''verification/app_running.png'' None,
              Close, SyncPlaywrightExit]"
  proof
    assume T: "Screenshot ''verification/app_running.png'' None
         \<in> set (trace (snd (run verify_app_loads env fs)))"
    then have "\<forall>c \<in> set (prelude @
            [Goto ''http://localhost:8080'',
             WaitForSelector ''canvas'' (Some Visible) None,
             WaitForTimeout 2000]).
          fails env c = None"
      by (simp only: screenshot_reached) simp
    with T show "trace (snd (run verify_app_loads env fs)) =
             [SyncPlaywrightEnter, Launch True, NewPage,
              Goto ''http://localhost:8080'',
              WaitForSelector ''canvas'' (Some Visible) None,
              WaitForTimeout 2000,
              Screenshot ''verification/app_running.png'' None,
              Close, SyncPlaywrightExit]"
      using trace_when_screenshot_reached [where S = verify_app_loads
          and body = verify_app_loads_body and cs = "[Goto ''http://localhost:8080'',
             WaitForSelector ''canvas'' (Some Visible) None,
             WaitForTimeout 2000]"
          and p = "''verification/app_running.png''" and fp = None
          and env = env and fs = fs, OF verify_app_loads_script]
      by (simp add: verify_app_loads_body_def prelude_def)
  qed
  show ?thesis
    using A B1 B2 C1 C2 by (intro conjI)
qed

text \<open>
  Claim C4 as stated fails for \<^verbatim>\<open>verify_app\<close>: in a run where every call returns, the
  screenshot is taken and no settle wait was made.
\<close>

theorem no_settle_wait_counterexample:
  "Screenshot ''verification/app_screenshot.png'' None
     \<in> set (trace (snd (run verify_app env_ok Map.empty)))
   \<and> settle_waits (trace (snd (run verify_app env_ok Map.empty))) = []"
  by (simp add: run_ok)

text \<open>The theorem at runs where every call returns.\<close>

theorem settle_wait_before_screenshot_witness:
  "settle_waits (trace (snd (run verify_autopilot env_ok disk0))) = [3000]
   \<and> Screenshot ''verification/autopilot_active.png'' None
        \<in> set (trace (snd (run verify_autopilot env_ok disk0)))
   \<and> trace (snd (run verify_autopilot env_ok disk0)) =
        [SyncPlaywrightEnter, Launch True, NewPage,
         Goto ''http://localhost:8000'',
         WaitForSelector ''#canvas-container canvas'' None (Some 5000),
         Click ''#start-overlay'',
         WaitForTimeout 3000,
         Screenshot ''verification/autopilot_active.png'' None,
         Close, SyncPlaywrightExit]
   \<and> settle_waits (trace (snd (run verify_app_loads env_ok disk0))) = [2000]
   \<and> Screenshot ''verification/app_running.png'' None
        \<in> set (trace (snd (run verify_app_loads env_ok disk0)))
   \<and> trace (snd (run verify_app_loads env_ok disk0)) =
        [SyncPlaywrightEnter, Launch True, NewPage,
         Goto ''http://localhost:8080'',
         WaitForSelector ''canvas'' (Some Visible) None,
         WaitForTimeout 2000,
         Screenshot ''verification/app_running.png'' None,
         Close, SyncPlaywrightExit]"
proof -
  have F: "fails env_ok c = None" for c
    by (simp add: env_ok_def)
  have T: "Screenshot ''verification/autopilot_active.png'' None
        \<in> set (trace (snd (run verify_autopilot env_ok disk0)))"
    "Screenshot ''verification/app_running.png'' None
        \<in> set (trace (snd (run verify_app_loads env_ok disk0)))"
    by (simp_all add: run_ok)
  note W = settle_wait_before_screenshot [of env_ok disk0]
  have W1: "settle_waits (trace (snd (run verify_autopilot env_ok disk0))) = [3000]"
    "settle_waits (trace (snd (run verify_app_loads env_ok disk0))) = [2000]"
    using W by (simp_all add: F)
  have W2: "trace (snd (run verify_autopilot env_ok disk0)) =
        [SyncPlaywrightEnter, Launch True, NewPage,
         Goto ''http://localhost:8000'',
         WaitForSelector ''#canvas-container canvas'' None (Some 5000),
         Click ''#start-overlay'',
         WaitForTimeout 3000,
         Screenshot ''verification/autopilot_active.png'' None,
         Close, SyncPlaywrightExit]"
    using W T(1) by blast
  have W3: "trace (snd (run verify_app_loads env_ok disk0)) =
        [SyncPlaywrightEnter, Launch True, NewPage,
         Goto ''http://localhost:8080'',
         WaitForSelector ''canvas'' (Some Visible) None,
         WaitForTimeout 2000,
         Screenshot ''verification/app_running.png'' None,
         Close, SyncPlaywrightExit]"
    using W T(2) by blast
  show ?thesis
    using W1 W2 W3 T by (intro conjI)
qed

subsection \<open>C5: the screenshot\<close>




subsection \<open>C6: the success message\<close>

text \<open>
  Claim C6, as amended. In a run in which every call returns, each script prints its
  confirmation message as the last console line (in \<^verbatim>\<open>verify_app\<close> and \<^verbatim>\<open>verify_app_loads\<close>
  it is the only line). Only the message of \<^verbatim>\<open>verify_app_loads\<close> includes the output path;
  the messages of \<^verbatim>\<open>verify_app\<close> and \<^verbatim>\<open>verify_autopilot\<close> do not.
\<close>

theorem success_message_printed:
  "(list_all (\<lambda>c. fails env c = None) (trace (snd (run verify_app env fs)))
      \<longrightarrow> console (snd (run verify_app env fs)) = [''Screenshot taken successfully''])
   \<and> (list_all (\<lambda>c. fails env c = None) (trace (snd (run verify_autopilot env fs)))
      \<longrightarrow> console (snd (run verify_autopilot env fs)) =
            [''Navigating to app...'', ''Clicking start overlay...'',
             ''Waiting for autopilot...'', ''Taking screenshot...'', ''Screenshot saved.''])
   \<and> (list_all (\<lambda>c. fails env c = None) (trace (snd (run verify_app_loads env fs)))
      \<longrightarrow> console (snd (run verify_app_loads env fs)) =
            [''Screenshot taken: verification/app_running.png''])
   \<and> \<not> contains_str ''Screenshot taken successfully'' ''verification/app_screenshot.png''
   \<and> \<not> contains_str ''Screenshot saved.'' ''verification/autopilot_active.png''
   \<and> contains_str ''Screenshot taken: verification/app_running.png''
        ''verification/app_running.png''"
proof -
  have A: "list_all (\<lambda>c. fails env c = None) (trace (snd (run verify_app env fs)))
      \<longrightarrow> console (snd (run verify_app env fs)) = [''Screenshot taken successfully'']"
  proof
    assume "list_all (\<lambda>c. fails env c = None) (trace (snd (run verify_app env fs)))"
    then have X: "try_entered env \<and> first_failure env (calls_of verify_app_body) = None"
      using every_call_returned [of verify_app env verify_app_body fs, OF verify_app_script]
      by blast
    then have "printed env verify_app_body = [''Screenshot taken successfully'']"
      by (simp only: first_failure_None_iff) (simp add: verify_app_body_def)
    then show "console (snd (run verify_app env fs)) = [''Screenshot taken successfully'']"
      using X console_on_success [of verify_app env verify_app_body fs, OF verify_app_script]
      by simp
  qed
  have B: "list_all (\<lambda>c. fails env c = None) (trace (snd (run verify_autopilot env fs)))
      \<longrightarrow> console (snd (run verify_autopilot env fs)) =
            [''Navigating to app...'', ''Clicking start overlay...'',
             ''Waiting for autopilot...'', ''Taking screenshot...'', ''Screenshot saved.'']"
  proof
    assume "list_all (\<lambda>c. fails env c = None) (trace (snd (run verify_autopilot env fs)))"
    then have X: "try_entered env \<and> first_failure env (calls_of verify_autopilot_body) = None"
      using every_call_returned [of verify_autopilot env verify_autopilot_body fs,
          OF verify_autopilot_script]
      by blast
    then have "printed env verify_autopilot_body =
            [''Navigating to app...'', ''Clicking start overlay...'',
             ''Waiting for autopilot...'', ''Taking screenshot...'', ''Screenshot saved.'']"
      by (simp only: first_failure_None_iff) (simp add: verify_autopilot_body_def)
    then show "console (snd (run verify_autopilot env fs)) =
            [''Navigating to app...'', ''Clicking start overlay...'',
             ''Waiting for autopilot...'', ''Taking screenshot...'', ''Screenshot saved.'']"
      using X console_on_success [of verify_autopilot env verify_autopilot_body fs,
          OF verify_autopilot_script]
      by simp
  qed
  have C: "list_all (\<lambda>c. fails env c = None) (trace (snd (run verify_app_loads env fs)))
      \<longrightarrow> console (snd (run verify_app_loads env fs)) =
            [''Screenshot taken: verification/app_running.png'']"
  proof
    assume "list_all (\<lambda>c. fails env c = None) (trace (snd (run verify_app_loads env fs)))"
    then have X: "try_entered env \<and> first_failure env (calls_of verify_app_loads_body) = None"
      using every_call_returned [of verify_app_loads env verify_app_loads_body fs,
          OF verify_app_loads_script]
      by blast
    then have "printed env verify_app_loads_body =
            [''Screenshot taken: verification/app_running.png'']"
      by (simp only: first_failure_None_iff) (simp add: verify_app_loads_body_def)
    then show "console (snd (run verify_app_loads env fs)) =
            [''Screenshot taken: verification/app_running.png'']"
      using X console_on_success [of verify_app_loads env verify_app_loads_body fs,
          OF verify_app_loads_script]
      by simp
  qed
  have D: "\<not> contains_str ''Screenshot taken successfully'' ''verification/app_screenshot.png''"
    by code_simp
  have E: "\<not> contains_str ''Screenshot saved.'' ''verification/autopilot_active.png''"
    by code_simp
  have F: "contains_str ''Screenshot taken: verification/app_running.png''
        ''verification/app_running.png''"
    by code_simp
  show ?thesis
    using A B C D E F by (intro conjI)
qed

text \<open>
  Claim C6 as stated fails for \<^verbatim>\<open>verify_app\<close>: the message printed on success does not
  include the output path.
\<close>

theorem success_message_without_path_counterexample:
  "console (snd (run verify_app env_ok Map.empty)) = [''Screenshot taken successfully'']
   \<and> \<not> contains_str ''Screenshot taken successfully'' ''verification/app_screenshot.png''"
proof -
  have "\<not> contains_str ''Screenshot taken successfully'' ''verification/app_screenshot.png''"
    by code_simp
  then show ?thesis
    by (simp only: run_ok snd_conv world.simps simp_thms)
qed

text \<open>The theorem at runs in which every call returns.\<close>

theorem success_message_printed_witness:
  "list_all (\<lambda>c. fails env_ok c = None) (trace (snd (run verify_app env_ok disk0)))
   \<and> console (snd (run verify_app env_ok disk0)) = [''Screenshot taken successfully'']
   \<and> list_all (\<lambda>c. fails env_ok c = None) (trace (snd (run verify_autopilot env_ok disk0)))
   \<and> console (snd (run verify_autopilot env_ok disk0)) =
        [''Navigating to app...'', ''Clicking start overlay...'',
         ''Waiting for autopilot...'', ''Taking screenshot...'', ''Screenshot saved.'']
   \<and> list_all (\<lambda>c. fails env_ok c = None) (trace (snd (run verify_app_loads env_ok disk0)))
   \<and> console (snd (run verify_app_loads env_ok disk0)) =
        [''Screenshot taken: verification/app_running.png'']"
proof -
  have F: "fails env_ok c = None" for c
    by (simp add: env_ok_def)
  have H: "list_all (\<lambda>c. fails env_ok c = None) (trace (snd (run verify_app env_ok disk0)))"
    "list_all (\<lambda>c. fails env_ok c = None) (trace (snd (run verify_autopilot env_ok disk0)))"
    "list_all (\<lambda>c. fails env_ok c = None) (trace (snd (run verify_app_loads env_ok disk0)))"
    by (simp_all add: F list_all_iff)
  note W = success_message_printed [of env_ok disk0]
  have W1: "console (snd (run verify_app env_ok disk0)) = [''Screenshot taken successfully'']"
    using W H(1) by blast
  have W2: "console (snd (run verify_autopilot env_ok disk0)) =
        [''Navigating to app...'', ''Clicking start overlay...'',
         ''Waiting for autopilot...'', ''Taking screenshot...'', ''Screenshot saved.'']"
    using W H(2) by blast
  have W3: "console (snd (run verify_app_loads env_ok disk0)) =
        [''Screenshot taken: verification/app_running.png'']"
    using W H(3) by blast
  show ?thesis
    using H W1 W2 W3 by (intro conjI)
qed

subsection \<open>C7: the readiness selector never appears\<close>

text \<open>
  Claim C7, as amended. In every run of each script in which the \<^verbatim>\<open>try\<close> block is entered
  and the readiness selector never appears, either because the navigation raises (no server
  is listening) or because the navigation returns and the readiness wait raises (its timeout
  elapsed): the calls stop there and go to \<^verbatim>\<open>browser.close()\<close>; the console ends with
  \<^verbatim>\<open>Error: \<close> followed by the message of that exception (after the progress line of
  \<^verbatim>\<open>verify_autopilot\<close>, and with no success line); the files after the run are the files
  before it; and the exception itself does not leave the run function. The function returns
  normally exactly when \<^verbatim>\<open>browser.close()\<close> and the exit of the \<^verbatim>\<open>with\<close> block return; an
  exception of one of these two is not caught and leaves the function.
\<close>

theorem readiness_timeout_is_reported:
  "(try_entered env \<and> fails env (Goto ''http://localhost:5173'') = None
      \<and> fails env (WaitForSelector ''#canvas-container canvas'' None (Some 10000)) = Some m
    \<longrightarrow> run verify_app env fs =
          (cleanup_result env,
           \<lparr>console = [''Error: '' @ m], files = fs,
            trace = [SyncPlaywrightEnter, Launch True, NewPage,
                     Goto ''http://localhost:5173'',
                     WaitForSelector ''#canvas-container canvas'' None (Some 10000),
                     Close, SyncPlaywrightExit]\<rparr>))
   \<and> (try_entered env \<and> fails env (Goto ''http://localhost:5173'') = Some g
    \<longrightarrow> run verify_app env fs =
          (cleanup_result env,
           \<lparr>console = [''Error: '' @ g], files = fs,
            trace = [SyncPlaywrightEnter, Launch True, NewPage,
                     Goto ''http://localhost:5173'',
                     Close, SyncPlaywrightExit]\<rparr>))
   \<and> (try_entered env \<and> fails env (Goto ''http://localhost:8000'') = None
      \<and> fails env (WaitForSelector ''#canvas-container canvas'' None (Some 5000)) = Some m
    \<longrightarrow> run verify_autopilot env fs =
          (cleanup_result env,
           \<lparr>console = [''Navigating to app...'', ''Error: '' @ m], files = fs,
            trace = [SyncPlaywrightEnter, Launch True, NewPage,
                     Goto ''http://localhost:8000'',
                     WaitForSelector ''#canvas-container canvas'' None (Some 5000),
                     Close, SyncPlaywrightExit]\<rparr>))
   \<and> (try_entered env \<and> fails env (Goto ''http://localhost:8000'') = Some g
    \<longrightarrow> run verify_autopilot env fs =
          (cleanup_result env,
           \<lparr>console = [''Navigating to app...'', ''Error: '' @ g], files = fs,
            trace = [SyncPlaywrightEnter, Launch True, NewPage,
                     Goto ''http://localhost:8000'',
                     Close, SyncPlaywrightExit]\<rparr>))
   \<and> (try_entered env \<and> fails env (Goto ''http://localhost:8080'') = None
      \<and> fails env (WaitForSelector ''canvas'' (Some Visible) None) = Some m
    \<longrightarrow> run verify_app_loads env fs =
          (cleanup_result env,
           \<lparr>console = [''Error: '' @ m], files = fs,
            trace = [SyncPlaywrightEnter, Launch True, NewPage,
                     Goto ''http://localhost:8080'',
                     WaitForSelector ''canvas'' (Some Visible) None,
                     Close, SyncPlaywrightExit]\<rparr>))
   \<and> (try_entered env \<and> fails env (Goto ''http://localhost:8080'') = Some g
    \<longrightarrow> run verify_app_loads env fs =
          (cleanup_result env,
           \<lparr>console = [''Error: '' @ g], files = fs,
            trace = [SyncPlaywrightEnter, Launch True, NewPage,
                     Goto ''http://localhost:8080'',
                     Close, SyncPlaywrightExit]\<rparr>))
   \<and> (cleanup_result env = None
        \<longleftrightarrow> fails env Close = None \<and> fails env SyncPlaywrightExit = None)
   \<and> (\<forall>e. cleanup_result env = Some e \<longrightarrow> origin e = Close \<or> origin e = SyncPlaywrightExit)"
proof -
  have A1: "try_entered env \<and> fails env (Goto ''http://localhost:5173'') = None
      \<and> fails env (WaitForSelector ''#canvas-container canvas'' None (Some 10000)) = Some m
    \<longrightarrow> run verify_app env fs =
          (cleanup_result env,
           \<lparr>console = [''Error: '' @ m], files = fs,
            trace = [SyncPlaywrightEnter, Launch True, NewPage,
                     Goto ''http://localhost:5173'',
                     WaitForSelector ''#canvas-container canvas'' None (Some 10000),
                     Close, SyncPlaywrightExit]\<rparr>)"
    using run_when_step_fails [of verify_app env verify_app_body
        "[Goto ''http://localhost:5173'']"
        "WaitForSelector ''#canvas-container canvas'' None (Some 10000)"
        "[Screenshot ''verification/app_screenshot.png'' None]" m fs, OF verify_app_script]
    by (simp add: verify_app_body_def prelude_def)
  have A2: "try_entered env \<and> fails env (Goto ''http://localhost:5173'') = Some g
    \<longrightarrow> run verify_app env fs =
          (cleanup_result env,
           \<lparr>console = [''Error: '' @ g], files = fs,
            trace = [SyncPlaywrightEnter, Launch True, NewPage,
                     Goto ''http://localhost:5173'',
                     Close, SyncPlaywrightExit]\<rparr>)"
    using run_when_step_fails [of verify_app env verify_app_body "[]"
        "Goto ''http://localhost:5173''"
        "[WaitForSelector ''#canvas-container canvas'' None (Some 10000),
          Screenshot ''verification/app_screenshot.png'' None]" g fs, OF verify_app_script]
    by (simp add: verify_app_body_def prelude_def)
  have B1: "try_entered env \<and> fails env (Goto ''http://localhost:8000'') = None
      \<and> fails env (WaitForSelector ''#canvas-container canvas'' None (Some 5000)) = Some m
    \<longrightarrow> run verify_autopilot env fs =
          (cleanup_result env,
           \<lparr>console = [''Navigating to app...'', ''Error: '' @ m], files = fs,
            trace = [SyncPlaywrightEnter, Launch True, NewPage,
                     Goto ''http://localhost:8000'',
                     WaitForSelector ''#canvas-container canvas'' None (Some 5000),
                     Close, SyncPlaywrightExit]\<rparr>)"
    using run_when_step_fails [of verify_autopilot env verify_autopilot_body
        "[Goto ''http://localhost:8000'']"
        "WaitForSelector ''#canvas-container canvas'' None (Some 5000)"
        "[Click ''#start-overlay'', WaitForTimeout 3000,
          Screenshot ''verification/autopilot_active.png'' None]" m fs,
        OF verify_autopilot_script]
    by (simp add: verify_autopilot_body_def prelude_def)
  have B2: "try_entered env \<and> fails env (Goto ''http://localhost:8000'') = Some g
    \<longrightarrow> run verify_autopilot env fs =
          (cleanup_result env,
           \<lparr>console = [''Navigating to app...'', ''Error: '' @ g], files = fs,
            trace = [SyncPlaywrightEnter, Launch True, NewPage,
                     Goto ''http://localhost:8000'',
                     Close, SyncPlaywrightExit]\<rparr>)"
    using run_when_step_fails [of verify_autopilot env verify_autopilot_body "[]"
        "Goto ''http://localhost:8000''"
        "[WaitForSelector ''#canvas-container canvas'' None (Some 5000),
          Click ''#start-overlay'', WaitForTimeout 3000,
          Screenshot ''verification/autopilot_active.png'' None]" g fs,
        OF verify_autopilot_script]
    by (simp add: verify_autopilot_body_def prelude_def)
  have C1: "try_entered env \<and> fails env (Goto ''http://localhost:8080'') = None
      \<and> fails env (WaitForSelector ''canvas'' (Some Visible) None) = Some m
    \<longrightarrow> run verify_app_loads env fs =
          (cleanup_result env,
           \<lparr>console = [''Error: '' @ m], files = fs,
            trace = [SyncPlaywrightEnter, Launch True, NewPage,
                     Goto ''http://localhost:8080'',
                     WaitForSelector ''canvas'' (Some Visible) None,
                     Close, SyncPlaywrightExit]\<rparr>)"
    using run_when_step_fails [of verify_app_loads env verify_app_loads_body
        "[Goto ''http://localhost:8080'']"
        "WaitForSelector ''canvas'' (Some Visible) None"
        "[WaitForTimeout 2000, Screenshot ''verification/app_running.png'' None]" m fs,
        OF verify_app_loads_script]
    by (simp add: verify_app_loads_body_def prelude_def)
  have C2: "try_entered env \<and> fails env (Goto ''http://localhost:8080'') = Some g
    \<longrightarrow> run verify_app_loads env fs =
          (cleanup_result env,
           \<lparr>console = [''Error: '' @ g], files = fs,
            trace = [SyncPlaywrightEnter, Launch True, NewPage,
                     Goto ''http://localhost:8080'',
                     Close, SyncPlaywrightExit]\<rparr>)"
    using run_when_step_fails [of verify_app_loads env verify_app_loads_body "[]"
        "Goto ''http://localhost:8080''"
        "[WaitForSelector ''canvas'' (Some Visible) None, WaitForTimeout 2000,
          Screenshot ''verification/app_running.png'' None]" g fs,
        OF verify_app_loads_script]
    by (simp add: verify_app_loads_body_def prelude_def)
  have D1: "cleanup_result env = None
        \<longleftrightarrow> fails env Close = None \<and> fails env SyncPlaywrightExit = None"
    by (simp add: cleanup_result_def split: option.splits)
  have D2: "\<forall>e. cleanup_result env = Some e \<longrightarrow> origin e = Close \<or> origin e = SyncPlaywrightExit"
    by (auto simp: cleanup_result_def split: option.splits)
  show ?thesis
    using A1 A2 B1 B2 C1 C2 D1 D2 by (intro conjI)
qed

text \<open>
  Claim C7 as stated fails: in a run of \<^verbatim>\<open>verify_app\<close> whose readiness wait times out and
  whose \<^verbatim>\<open>browser.close()\<close> then raises, an exception leaves the run function.
\<close>

theorem cleanup_failure_escapes_counterexample:
  "try_entered env_close_fails
   \<and> fails env_close_fails (Goto ''http://localhost:5173'') = None
   \<and> fails env_close_fails (WaitForSelector ''#canvas-container canvas'' None (Some 10000))
        = Some ''Timeout exceeded.''
   \<and> fst (run verify_app env_close_fails Map.empty) = Some (Error Close ''Connection closed'')"
proof -
  have "fst (run verify_app env_close_fails Map.empty) = Some (Error Close ''Connection closed'')"
    by (simp add: run_def verify_app_def with_sync_playwright_def try_except_finally_def
          seq_def call_def print_def env_close_fails_def)
  then show ?thesis
    by (simp add: try_entered_def prelude_def env_close_fails_def)
qed

text \<open>
  The theorem at a run of \<^verbatim>\<open>verify_app\<close> whose readiness wait times out and at a run of
  \<^verbatim>\<open>verify_autopilot\<close> with no server listening, both on a disk that holds a stale
  screenshot.
\<close>

theorem readiness_timeout_is_reported_witness:
  "try_entered env_timeout
   \<and> fails env_timeout (Goto ''http://localhost:5173'') = None
   \<and> fails env_timeout (WaitForSelector ''#canvas-container canvas'' None (Some 10000))
        = Some ''Timeout exceeded.''
   \<and> fails env_timeout Close = None \<and> fails env_timeout SyncPlaywrightExit = None
   \<and> run verify_app env_timeout disk0 =
        (None,
         \<lparr>console = [''Error: Timeout exceeded.''], files = disk0,
          trace = [SyncPlaywrightEnter, Launch True, NewPage,
                   Goto ''http://localhost:5173'',
                   WaitForSelector ''#canvas-container canvas'' None (Some 10000),
                   Close, SyncPlaywrightExit]\<rparr>)
   \<and> try_entered env_no_server
   \<and> fails env_no_server (Goto ''http://localhost:8000'') = Some ''net::ERR_CONNECTION_REFUSED''
   \<and> fails env_no_server Close = None \<and> fails env_no_server SyncPlaywrightExit = None
   \<and> run verify_autopilot env_no_server disk0 =
        (None,
         \<lparr>console = [''Navigating to app...'', ''Error: net::ERR_CONNECTION_REFUSED''],
          files = disk0,
          trace = [SyncPlaywrightEnter, Launch True, NewPage,
                   Goto ''http://localhost:8000'',
                   Close, SyncPlaywrightExit]\<rparr>)"
proof -
  have E: "try_entered env_timeout" "try_entered env_no_server"
    by (simp_all add: try_entered_def prelude_def env_timeout_def env_no_server_def)
  have T: "fails env_timeout (Goto ''http://localhost:5173'') = None"
    "fails env_timeout (WaitForSelector ''#canvas-container canvas'' None (Some 10000))
        = Some ''Timeout exceeded.''"
    "fails env_timeout Close = None" "fails env_timeout SyncPlaywrightExit = None"
    by (simp_all add: env_timeout_def)
  have N: "fails env_no_server (Goto ''http://localhost:8000'') = Some ''net::ERR_CONNECTION_REFUSED''"
    "fails env_no_server Close = None" "fails env_no_server SyncPlaywrightExit = None"
    by (simp_all add: env_no_server_def)
  note W1 = readiness_timeout_is_reported [where env = env_timeout and fs = disk0
      and m = "''Timeout exceeded.''"]
  note W2 = readiness_timeout_is_reported [where env = env_no_server and fs = disk0
      and g = "''net::ERR_CONNECTION_REFUSED''"]
  have C1: "cleanup_result env_timeout = None"
    using W1 [THEN conjunct2, THEN conjunct2, THEN conjunct2, THEN conjunct2, THEN conjunct2,
        THEN conjunct2, THEN conjunct1] T(3,4)
    by (simp only: simp_thms)
  have C2: "cleanup_result env_no_server = None"
    using W2 [THEN conjunct2, THEN conjunct2, THEN conjunct2, THEN conjunct2, THEN conjunct2,
        THEN conjunct2, THEN conjunct1] N(2,3)
    by (simp only: simp_thms)
  have P1: "try_entered env_timeout \<and> fails env_timeout (Goto ''http://localhost:5173'') = None
      \<and> fails env_timeout (WaitForSelector ''#canvas-container canvas'' None (Some 10000))
           = Some ''Timeout exceeded.''"
    using E(1) T(1,2) by (intro conjI)
  have P2: "try_entered env_no_server
      \<and> fails env_no_server (Goto ''http://localhost:8000'') = Some ''net::ERR_CONNECTION_REFUSED''"
    using E(2) N(1) by (intro conjI)
  have R1: "run verify_app env_timeout disk0 =
        (None,
         \<lparr>console = [''Error: Timeout exceeded.''], files = disk0,
          trace = [SyncPlaywrightEnter, Launch True, NewPage,
                   Goto ''http://localhost:5173'',
                   WaitForSelector ''#canvas-container canvas'' None (Some 10000),
                   Close, SyncPlaywrightExit]\<rparr>)"
    using W1 [THEN conjunct1, THEN mp, OF P1] unfolding C1 by simp
  have R2: "run verify_autopilot env_no_server disk0 =
        (None,
         \<lparr>console = [''Navigating to app...'', ''Error: net::ERR_CONNECTION_REFUSED''],
          files = disk0,
          trace = [SyncPlaywrightEnter, Launch True, NewPage,
                   Goto ''http://localhost:8000'',
                   Close, SyncPlaywrightExit]\<rparr>)"
    using W2 [THEN conjunct2, THEN conjunct2, THEN conjunct2, THEN conjunct1, THEN mp, OF P2]
    unfolding C2 by simp
  show ?thesis
    using E T N R1 R2 by (intro conjI)
qed

subsection \<open>C8: the order of the calls\<close>

text \<open>
  Claim C8, as amended. The calls of every run of each script are the script's fixed sequence
  cut at the first failure: entering the \<^verbatim>\<open>with\<close> block, launching the browser, opening the
  page, then navigation, readiness wait, (in \<^verbatim>\<open>verify_autopilot\<close>) one click, (in
  \<^verbatim>\<open>verify_autopilot\<close> and \<^verbatim>\<open>verify_app_loads\<close>, not in \<^verbatim>\<open>verify_app\<close>) the settle wait, and the
  screenshot. A failure inside the \<^verbatim>\<open>try\<close> block skips the remaining calls of the block and
  goes to \<^verbatim>\<open>browser.close()\<close>; a failure of the launch or of opening the page skips
  everything up to the exit of the \<^verbatim>\<open>with\<close> block, \<^verbatim>\<open>browser.close()\<close> included. A screenshot
  call is made only in a run whose readiness wait returned.
\<close>

theorem calls_follow_the_linear_order:
  "trace (snd (run verify_app env fs)) =
     expected_trace env
       [Goto ''http://localhost:5173'',
        WaitForSelector ''#canvas-container canvas'' None (Some 10000),
        Screenshot ''verification/app_screenshot.png'' None]
   \<and> trace (snd (run verify_autopilot env fs)) =
     expected_trace env
       [Goto ''http://localhost:8000'',
        WaitForSelector ''#canvas-container canvas'' None (Some 5000),
        Click ''#start-overlay'',
        WaitForTimeout 3000,
        Screenshot ''verification/autopilot_active.png'' None]
   \<and> trace (snd (run verify_app_loads env fs)) =
     expected_trace env
       [Goto ''http://localhost:8080'',
        WaitForSelector ''canvas'' (Some Visible) None,
        WaitForTimeout 2000,
        Screenshot ''verification/app_running.png'' None]
   \<and> (S \<in> scripts \<and> Screenshot p fp \<in> set (trace (snd (run S env fs)))
       \<longrightarrow> (\<exists>sel st t. WaitForSelector sel st t \<in> set (trace (snd (run S env fs)))
                    \<and> fails env (WaitForSelector sel st t) = None))"
proof -
  have A: "trace (snd (run verify_app env fs)) =
     expected_trace env
       [Goto ''http://localhost:5173'',
        WaitForSelector ''#canvas-container canvas'' None (Some 10000),
        Screenshot ''verification/app_screenshot.png'' None]"
    by (simp add: trace_closed_form [OF verify_app_script] verify_app_body_def)
  have B: "trace (snd (run verify_autopilot env fs)) =
     expected_trace env
       [Goto ''http://localhost:8000'',
        WaitForSelector ''#canvas-container canvas'' None (Some 5000),
        Click ''#start-overlay'',
        WaitForTimeout 3000,
        Screenshot ''verification/autopilot_active.png'' None]"
    by (simp add: trace_closed_form [OF verify_autopilot_script] verify_autopilot_body_def)
  have C: "trace (snd (run verify_app_loads env fs)) =
     expected_trace env
       [Goto ''http://localhost:8080'',
        WaitForSelector ''canvas'' (Some Visible) None,
        WaitForTimeout 2000,
        Screenshot ''verification/app_running.png'' None]"
    by (simp add: trace_closed_form [OF verify_app_loads_script] verify_app_loads_body_def)
  show ?thesis
    using A B C wait_before_screenshot [of S p fp env fs] by blast
qed

text \<open>
  Claim C8 as stated fails twice: when opening the page raises in \<^verbatim>\<open>verify_app\<close>, the run does
  not go to \<^verbatim>\<open>browser.close()\<close>; and a run of \<^verbatim>\<open>verify_app\<close> in which every call returns takes
  the screenshot with no settle wait.
\<close>

theorem linear_order_counterexample:
  "fails env_no_page NewPage \<noteq> None
   \<and> Close \<notin> set (trace (snd (run verify_app env_no_page Map.empty)))
   \<and> Screenshot ''verification/app_screenshot.png'' None
        \<in> set (trace (snd (run verify_app env_ok Map.empty)))
   \<and> settle_waits (trace (snd (run verify_app env_ok Map.empty))) = []"
proof -
  have "fails env_no_page NewPage \<noteq> None"
    by (simp add: env_no_page_def)
  then show ?thesis
    by (simp add: run_ok run_no_page)
qed

text \<open>
  The theorem at a run whose readiness wait times out, at one where opening the page raises,
  and at a run of \<^verbatim>\<open>verify_autopilot\<close> that reaches the screenshot.
\<close>

theorem calls_follow_the_linear_order_witness:
  "trace (snd (run verify_app env_timeout disk0)) =
     [SyncPlaywrightEnter, Launch True, NewPage,
      Goto ''http://localhost:5173'',
      WaitForSelector ''#canvas-container canvas'' None (Some 10000),
      Close, SyncPlaywrightExit]
   \<and> trace (snd (run verify_app env_no_page disk0)) =
     [SyncPlaywrightEnter, Launch True, NewPage, SyncPlaywrightExit]
   \<and> verify_autopilot \<in> scripts
   \<and> Screenshot ''verification/autopilot_active.png'' None
        \<in> set (trace (snd (run verify_autopilot env_ok disk0)))
   \<and> (\<exists>sel st t. WaitForSelector sel st t \<in> set (trace (snd (run verify_autopilot env_ok disk0)))
                    \<and> fails env_ok (WaitForSelector sel st t) = None)"
proof -
  have T: "Screenshot ''verification/autopilot_active.png'' None
        \<in> set (trace (snd (run verify_autopilot env_ok disk0)))"
    by (simp add: run_ok)
  have X: "expected_trace env_timeout
       [Goto ''http://localhost:5173'',
        WaitForSelector ''#canvas-container canvas'' None (Some 10000),
        Screenshot ''verification/app_screenshot.png'' None] =
     [SyncPlaywrightEnter, Launch True, NewPage,
      Goto ''http://localhost:5173'',
      WaitForSelector ''#canvas-container canvas'' None (Some 10000),
      Close, SyncPlaywrightExit]"
    by (simp add: expected_trace_def try_entered_def prelude_def env_timeout_def)
  have Y: "expected_trace env_no_page
       [Goto ''http://localhost:5173'',
        WaitForSelector ''#canvas-container canvas'' None (Some 10000),
        Screenshot ''verification/app_screenshot.png'' None] =
     [SyncPlaywrightEnter, Launch True, NewPage, SyncPlaywrightExit]"
    by (simp add: expected_trace_def try_entered_def prelude_def env_no_page_def)
  have W1: "trace (snd (run verify_app env_timeout disk0)) =
     [SyncPlaywrightEnter, Launch True, NewPage,
      Goto ''http://localhost:5173'',
      WaitForSelector ''#canvas-container canvas'' None (Some 10000),
      Close, SyncPlaywrightExit]"
    using calls_follow_the_linear_order [of env_timeout disk0] unfolding X by blast
  have W2: "trace (snd (run verify_app env_no_page disk0)) =
     [SyncPlaywrightEnter, Launch True, NewPage, SyncPlaywrightExit]"
    using calls_follow_the_linear_order [of env_no_page disk0] unfolding Y by blast
  have W3: "\<exists>sel st t. WaitForSelector sel st t \<in> set (trace (snd (run verify_autopilot env_ok disk0)))
                    \<and> fails env_ok (WaitForSelector sel st t) = None"
    using calls_follow_the_linear_order [of env_ok disk0 verify_autopilot] T scripts_mem(2)
    by blast
  show ?thesis
    using W1 W2 W3 T scripts_mem(2) by (intro conjI)
qed

subsection \<open>C9: the files a run writes\<close>

text \<open>
  Claim C9. In every run of each script, every path other than the script's screenshot path
  holds after the run what it held before; and when a call that precedes the screenshot
  call raises, the files after the run are the files before it.
\<close>

theorem only_the_output_path_is_written:
  "(\<forall>p. p \<noteq> ''verification/app_screenshot.png'' \<longrightarrow>
        files (snd (run verify_app env fs)) p = fs p)
   \<and> ((\<exists>c \<in> set (prelude @
            [Goto ''http://localhost:5173'',
             WaitForSelector ''#canvas-container canvas'' None (Some 10000)]).
          fails env c \<noteq> None)
       \<longrightarrow> files (snd (run verify_app env fs)) = fs)
   \<and> (\<forall>p. p \<noteq> ''verification/autopilot_active.png'' \<longrightarrow>
        files (snd (run verify_autopilot env fs)) p = fs p)
   \<and> ((\<exists>c \<in> set (prelude @
            [Goto ''http://localhost:8000'',
             WaitForSelector ''#canvas-container canvas'' None (Some 5000),
             Click ''#start-overlay'',
             WaitForTimeout 3000]).
          fails env c \<noteq> None)
       \<longrightarrow> files (snd (run verify_autopilot env fs)) = fs)
   \<and> (\<forall>p. p \<noteq> ''verification/app_running.png'' \<longrightarrow>
        files (snd (run verify_app_loads env fs)) p = fs p)
   \<and> ((\<exists>c \<in> set (prelude @
            [Goto ''http://localhost:8080'',
             WaitForSelector ''canvas'' (Some Visible) None,
             WaitForTimeout 2000]).
          fails env c \<noteq> None)
       \<longrightarrow> files (snd (run verify_app_loads env fs)) = fs)"
proof -
  have A1: "\<forall>p. p \<noteq> ''verification/app_screenshot.png'' \<longrightarrow>
        files (snd (run verify_app env fs)) p = fs p"
    unfolding files_closed_form_app by simp
  have A2: "(\<exists>c \<in> set (prelude @
            [Goto ''http://localhost:5173'',
             WaitForSelector ''#canvas-container canvas'' None (Some 10000)]).
          fails env c \<noteq> None)
       \<longrightarrow> files (snd (run verify_app env fs)) = fs"
    unfolding files_closed_form_app by (auto simp: ball_Un)
  have B1: "\<forall>p. p \<noteq> ''verification/autopilot_active.png'' \<longrightarrow>
        files (snd (run verify_autopilot env fs)) p = fs p"
    unfolding files_closed_form_autopilot by simp
  have B2: "(\<exists>c \<in> set (prelude @
            [Goto ''http://localhost:8000'',
             WaitForSelector ''#canvas-container canvas'' None (Some 5000),
             Click ''#start-overlay'',
             WaitForTimeout 3000]).
          fails env c \<noteq> None)
       \<longrightarrow> files (snd (run verify_autopilot env fs)) = fs"
    unfolding files_closed_form_autopilot by (auto simp: ball_Un)
  have C1: "\<forall>p. p \<noteq> ''verification/app_running.png'' \<longrightarrow>
        files (snd (run verify_app_loads env fs)) p = fs p"
    unfolding files_closed_form_app_loads by simp
  have C2: "(\<exists>c \<in> set (prelude @
            [Goto ''http://localhost:8080'',
             WaitForSelector ''canvas'' (Some Visible) None,
             WaitForTimeout 2000]).
          fails env c \<noteq> None)
       \<longrightarrow> files (snd (run verify_app_loads env fs)) = fs"
    unfolding files_closed_form_app_loads by (auto simp: ball_Un)
  show ?thesis
    using A1 A2 B1 B2 C1 C2 by (intro conjI)
qed

text \<open>
  The theorem at successful runs and at runs whose readiness wait times out, on a disk
  that holds a stale screenshot and an unrelated file.
\<close>

theorem only_the_output_path_is_written_witness:
  "''notes.txt'' \<noteq> ''verification/app_screenshot.png''
   \<and> files (snd (run verify_app env_ok disk0)) ''notes.txt'' = Some [4]
   \<and> WaitForSelector ''#canvas-container canvas'' None (Some 10000)
        \<in> set (prelude @
            [Goto ''http://localhost:5173'',
             WaitForSelector ''#canvas-container canvas'' None (Some 10000)])
   \<and> fails env_timeout (WaitForSelector ''#canvas-container canvas'' None (Some 10000)) \<noteq> None
   \<and> files (snd (run verify_app env_timeout disk0)) = disk0
   \<and> files (snd (run verify_autopilot env_ok disk0)) ''notes.txt'' = Some [4]
   \<and> files (snd (run verify_autopilot env_timeout disk0)) = disk0
   \<and> files (snd (run verify_app_loads env_ok disk0)) ''notes.txt'' = Some [4]
   \<and> files (snd (run verify_app_loads env_timeout disk0)) = disk0"
  using only_the_output_path_is_written [of env_ok disk0]
    only_the_output_path_is_written [of env_timeout disk0]
  by (simp add: env_timeout_def prelude_def disk0_def)

subsection \<open>C10: the terminal console line\<close>

text \<open>
  Claim C10. In every run of each script in which the \<^verbatim>\<open>try\<close> block is entered: the
  script's success line is printed exactly when the screenshot call was made and returned;
  a line \<^verbatim>\<open>Error: \<close> followed by a message is printed exactly when some call inside the
  \<^verbatim>\<open>try\<close> block raised, and then it is the last line and carries the message of the
  exception that was raised; and exactly one of the two is printed.
\<close>

theorem exactly_one_terminal_line:
  assumes "try_entered env"
  shows
    "(''Screenshot taken successfully'' \<in> set (console (snd (run verify_app env fs)))
        \<longleftrightarrow> Screenshot ''verification/app_screenshot.png'' None
              \<in> set (trace (snd (run verify_app env fs)))
            \<and> fails env (Screenshot ''verification/app_screenshot.png'' None) = None)
     \<and> ((''Screenshot taken successfully'' \<in> set (console (snd (run verify_app env fs))))
          \<noteq> (\<exists>m. ''Error: '' @ m \<in> set (console (snd (run verify_app env fs)))))
     \<and> (''Screenshot saved.'' \<in> set (console (snd (run verify_autopilot env fs)))
        \<longleftrightarrow> Screenshot ''verification/autopilot_active.png'' None
              \<in> set (trace (snd (run verify_autopilot env fs)))
            \<and> fails env (Screenshot ''verification/autopilot_active.png'' None) = None)
     \<and> ((''Screenshot saved.'' \<in> set (console (snd (run verify_autopilot env fs))))
          \<noteq> (\<exists>m. ''Error: '' @ m \<in> set (console (snd (run verify_autopilot env fs)))))
     \<and> (''Screenshot taken: verification/app_running.png''
            \<in> set (console (snd (run verify_app_loads env fs)))
        \<longleftrightarrow> Screenshot ''verification/app_running.png'' None
              \<in> set (trace (snd (run verify_app_loads env fs)))
            \<and> fails env (Screenshot ''verification/app_running.png'' None) = None)
     \<and> ((''Screenshot taken: verification/app_running.png''
            \<in> set (console (snd (run verify_app_loads env fs))))
          \<noteq> (\<exists>m. ''Error: '' @ m \<in> set (console (snd (run verify_app_loads env fs)))))
     \<and> (S \<in> scripts \<longrightarrow>
           ((\<exists>m. ''Error: '' @ m \<in> set (console (snd (run S env fs))))
             \<longleftrightarrow> (\<exists>c \<in> set (trace (snd (run S env fs))).
                    c \<noteq> Close \<and> c \<noteq> SyncPlaywrightExit \<and> fails env c \<noteq> None))
         \<and> (\<forall>c m. c \<in> set (trace (snd (run S env fs))) \<and> c \<noteq> Close
                  \<and> c \<noteq> SyncPlaywrightExit \<and> fails env c = Some m
                \<longrightarrow> ''Error: '' @ m \<in> set (console (snd (run S env fs)))
                    \<and> last (console (snd (run S env fs))) = ''Error: '' @ m))"
proof -
  note ok = success_line_iff_no_failure [OF assms, of fs]
  note shot = screenshot_completed_iff_no_failure [OF assms, of fs]
  have A1: "''Screenshot taken successfully'' \<in> set (console (snd (run verify_app env fs)))
        \<longleftrightarrow> Screenshot ''verification/app_screenshot.png'' None
              \<in> set (trace (snd (run verify_app env fs)))
            \<and> fails env (Screenshot ''verification/app_screenshot.png'' None) = None"
    unfolding ok(1) shot(1) by (rule refl)
  have A2: "(''Screenshot taken successfully'' \<in> set (console (snd (run verify_app env fs))))
          \<noteq> (\<exists>m. ''Error: '' @ m \<in> set (console (snd (run verify_app env fs))))"
    using ok(1)
      error_line_iff_failure [of verify_app env verify_app_body fs, OF verify_app_script assms]
    by blast
  have B1: "''Screenshot saved.'' \<in> set (console (snd (run verify_autopilot env fs)))
        \<longleftrightarrow> Screenshot ''verification/autopilot_active.png'' None
              \<in> set (trace (snd (run verify_autopilot env fs)))
            \<and> fails env (Screenshot ''verification/autopilot_active.png'' None) = None"
    unfolding ok(2) shot(2) by (rule refl)
  have B2: "(''Screenshot saved.'' \<in> set (console (snd (run verify_autopilot env fs))))
          \<noteq> (\<exists>m. ''Error: '' @ m \<in> set (console (snd (run verify_autopilot env fs))))"
    using ok(2)
      error_line_iff_failure [of verify_autopilot env verify_autopilot_body fs, OF verify_autopilot_script assms]
    by blast
  have C1: "''Screenshot taken: verification/app_running.png''
            \<in> set (console (snd (run verify_app_loads env fs)))
        \<longleftrightarrow> Screenshot ''verification/app_running.png'' None
              \<in> set (trace (snd (run verify_app_loads env fs)))
            \<and> fails env (Screenshot ''verification/app_running.png'' None) = None"
    unfolding ok(3) shot(3) by (rule refl)
  have C2: "(''Screenshot taken: verification/app_running.png''
            \<in> set (console (snd (run verify_app_loads env fs))))
          \<noteq> (\<exists>m. ''Error: '' @ m \<in> set (console (snd (run verify_app_loads env fs))))"
    using ok(3)
      error_line_iff_failure [of verify_app_loads env verify_app_loads_body fs, OF verify_app_loads_script assms]
    by blast
  have G: "S \<in> scripts \<longrightarrow>
           ((\<exists>m. ''Error: '' @ m \<in> set (console (snd (run S env fs))))
             \<longleftrightarrow> (\<exists>c \<in> set (trace (snd (run S env fs))).
                    c \<noteq> Close \<and> c \<noteq> SyncPlaywrightExit \<and> fails env c \<noteq> None))
         \<and> (\<forall>c m. c \<in> set (trace (snd (run S env fs))) \<and> c \<noteq> Close
                  \<and> c \<noteq> SyncPlaywrightExit \<and> fails env c = Some m
                \<longrightarrow> ''Error: '' @ m \<in> set (console (snd (run S env fs)))
                    \<and> last (console (snd (run S env fs))) = ''Error: '' @ m)"
    using error_line_iff [of S env fs, OF _ assms]
      failure_line_in_console [of S env _ fs, OF _ assms]
      failure_is_printed [of S env _ fs, OF _ assms]
    by blast
  show ?thesis
    using A1 A2 B1 B2 C1 C2 G by (intro conjI)
qed

text \<open>
  The theorem at a run of \<^verbatim>\<open>verify_app\<close> in which every call returns and at one whose
  readiness wait times out.
\<close>

theorem exactly_one_terminal_line_witness:
  "try_entered env_ok
   \<and> ''Screenshot taken successfully'' \<in> set (console (snd (run verify_app env_ok disk0)))
   \<and> \<not> (\<exists>m. ''Error: '' @ m \<in> set (console (snd (run verify_app env_ok disk0))))
   \<and> try_entered env_timeout
   \<and> verify_app \<in> scripts
   \<and> WaitForSelector ''#canvas-container canvas'' None (Some 10000)
        \<in> set (trace (snd (run verify_app env_timeout disk0)))
   \<and> fails env_timeout (WaitForSelector ''#canvas-container canvas'' None (Some 10000))
        = Some ''Timeout exceeded.''
   \<and> ''Error: Timeout exceeded.'' \<in> set (console (snd (run verify_app env_timeout disk0)))
   \<and> last (console (snd (run verify_app env_timeout disk0))) = ''Error: Timeout exceeded.''
   \<and> ''Screenshot taken successfully'' \<notin> set (console (snd (run verify_app env_timeout disk0)))"
proof -
  have E: "try_entered env_ok" "try_entered env_timeout"
    by (simp_all add: try_entered_def prelude_def env_ok_def env_timeout_def)
  have K: "Screenshot ''verification/app_screenshot.png'' None
             \<in> set (trace (snd (run verify_app env_ok disk0)))"
    by (simp add: run_ok)
  have K': "fails env_ok (Screenshot ''verification/app_screenshot.png'' None) = None"
    by (simp add: env_ok_def)
  have T: "WaitForSelector ''#canvas-container canvas'' None (Some 10000)
        \<in> set (trace (snd (run verify_app env_timeout disk0)))"
    by (simp add: run_timeout)
  have F: "fails env_timeout (WaitForSelector ''#canvas-container canvas'' None (Some 10000))
        = Some ''Timeout exceeded.''"
    by (simp add: env_timeout_def)
  note W_ok = exactly_one_terminal_line [OF E(1), of disk0 verify_app]
  note W_to = exactly_one_terminal_line [OF E(2), of disk0 verify_app]
  have W1: "''Screenshot taken successfully'' \<in> set (console (snd (run verify_app env_ok disk0)))"
    using W_ok K K' by blast
  have W2: "\<not> (\<exists>m. ''Error: '' @ m \<in> set (console (snd (run verify_app env_ok disk0))))"
    using W_ok W1 by blast
  have W3: "''Error: '' @ ''Timeout exceeded.'' \<in> set (console (snd (run verify_app env_timeout disk0)))
     \<and> last (console (snd (run verify_app env_timeout disk0))) = ''Error: '' @ ''Timeout exceeded.''"
    using W_to T F scripts_mem(1) by blast
  have W4: "''Screenshot taken successfully'' \<notin> set (console (snd (run verify_app env_timeout disk0)))"
    using W_to W3 by blast
  show ?thesis
    using E scripts_mem(1) T F W1 W2 W3 W4 by simp
qed

end
